theory Spec2Isabelle
  imports Complex_Main "HOL-Library.AList"
begin

section \<open>JavaScript numbers\<close>

text \<open>
  A JavaScript Number is \<open>NaN\<close>, an infinity or a finite value, kept here as the exact
  rational it denotes; \<open>-0\<close> is identified with \<open>0\<close> (no code below tells them apart).
\<close>

datatype jsnum = NaN | PInf | NInf | Fin rat

text \<open>
  Arithmetic is IEEE 754 binary64: the exact result is rounded to the nearest double,
  ties to the even significand, and overflows to an infinity. \<open>to_double\<close> is that
  rounding; \<open>bitlen\<close> and \<open>declen\<close> count binary and decimal digits, \<open>ilog2\<close> is
  the exponent of the leading bit.
\<close>

function bitlen :: "int \<Rightarrow> int" where
  "bitlen n = (if n \<le> 0 then 0 else 1 + bitlen (n div 2))"
  by pat_completeness auto
termination
  by (relation "measure nat") auto

function declen :: "int \<Rightarrow> int" where
  "declen n = (if n \<le> 0 then 0 else 1 + declen (n div 10))"
  by pat_completeness auto
termination
  by (relation "measure nat") auto

function ipow :: "rat \<Rightarrow> int \<Rightarrow> rat" where
  "ipow b e =
     (if e \<le> 0 then 1
      else if even e then ipow (b * b) (e div 2)
      else b * ipow (b * b) (e div 2))"
  by pat_completeness auto
termination
  by (relation "measure (\<lambda>(b, e). nat e)") auto

declare bitlen.simps [simp del] declen.simps [simp del] ipow.simps [simp del]

definition pow2 :: "int \<Rightarrow> rat" where
  "pow2 e = (if 0 \<le> e then ipow 2 e else 1 / ipow 2 (- e))"

definition pow10 :: "int \<Rightarrow> rat" where
  "pow10 e = (if 0 \<le> e then ipow 10 e else 1 / ipow 10 (- e))"

definition round_half_even :: "rat \<Rightarrow> int" where
  "round_half_even x =
     (let f = \<lfloor>x\<rfloor>; d = x - of_int f
      in if d < 1 / 2 then f else if 1 / 2 < d then f + 1 else if even f then f else f + 1)"

definition ilog2 :: "rat \<Rightarrow> int" where
  "ilog2 x =
     (let e0 = bitlen (fst (quotient_of x)) - bitlen (snd (quotient_of x))
      in if pow2 e0 \<le> x then e0 else e0 - 1)"

definition to_double :: "rat \<Rightarrow> jsnum" where
  "to_double x =
     (if x = 0 then Fin 0
      else let a = \<bar>x\<bar>;
               q = max (ilog2 a - 52) (- 1074);
               r = of_int (round_half_even (a / pow2 q)) * pow2 q
           in if pow2 1024 \<le> r then (if 0 < x then PInf else NInf)
              else Fin (if 0 < x then r else - r))"

fun js_mul :: "jsnum \<Rightarrow> jsnum \<Rightarrow> jsnum" where
  "js_mul (Fin a) (Fin b) = to_double (a * b)"
| "js_mul NaN y = NaN"
| "js_mul x NaN = NaN"
| "js_mul (Fin a) PInf = (if a = 0 then NaN else if 0 < a then PInf else NInf)"
| "js_mul (Fin a) NInf = (if a = 0 then NaN else if 0 < a then NInf else PInf)"
| "js_mul PInf (Fin b) = (if b = 0 then NaN else if 0 < b then PInf else NInf)"
| "js_mul NInf (Fin b) = (if b = 0 then NaN else if 0 < b then NInf else PInf)"
| "js_mul PInf PInf = PInf"
| "js_mul PInf NInf = NInf"
| "js_mul NInf PInf = NInf"
| "js_mul NInf NInf = PInf"

fun js_div :: "jsnum \<Rightarrow> jsnum \<Rightarrow> jsnum" where
  "js_div (Fin a) (Fin b) =
     (if b = 0 then (if a = 0 then NaN else if 0 < a then PInf else NInf)
      else to_double (a / b))"
| "js_div NaN y = NaN"
| "js_div x NaN = NaN"
| "js_div (Fin a) PInf = Fin 0"
| "js_div (Fin a) NInf = Fin 0"
| "js_div PInf (Fin b) = (if 0 \<le> b then PInf else NInf)"
| "js_div NInf (Fin b) = (if 0 \<le> b then NInf else PInf)"
| "js_div PInf PInf = NaN"
| "js_div PInf NInf = NaN"
| "js_div NInf PInf = NaN"
| "js_div NInf NInf = NaN"

fun js_le :: "jsnum \<Rightarrow> jsnum \<Rightarrow> bool" where
  "js_le (Fin a) (Fin b) = (a \<le> b)"
| "js_le NaN y = False"
| "js_le x NaN = False"
| "js_le NInf y = True"
| "js_le x PInf = True"
| "js_le PInf y = False"
| "js_le x NInf = False"

text \<open>
  \<open>Number.prototype.toString\<close>: the shortest decimal digit string \<open>s\<close> (of \<open>k\<close>
  digits, with decimal exponent \<open>n\<close>) that rounds back to the number, the closest to
  it when there are several, written plainly for \<open>-6 < n \<le> 21\<close> and with an exponent
  otherwise.
\<close>

function dec_digits :: "int \<Rightarrow> string" where
  "dec_digits n =
     (if n < 10 then [char_of (48 + (if n < 0 then 0 else n))]
      else dec_digits (n div 10) @ [char_of (48 + n mod 10)])"
  by pat_completeness auto
termination
  by (relation "measure nat") auto

declare dec_digits.simps [simp del]

definition dec_exponent :: "rat \<Rightarrow> int" where
  "dec_exponent x =
     (let e0 = declen (fst (quotient_of x)) - declen (snd (quotient_of x))
      in if pow10 e0 \<le> x then e0 + 1 else e0)"

function shortest :: "rat \<Rightarrow> int \<Rightarrow> int \<Rightarrow> int \<times> int \<times> int" where
  "shortest x n k =
     (let u = pow10 (n - k);
          y = x / u;
          lo = \<lfloor>y\<rfloor>;
          hi = lo + 1;
          vlo = (to_double (of_int lo * u) = Fin x);
          vhi = (to_double (of_int hi * u) = Fin x);
          s = (if vlo \<and> vhi
               then (if y - of_int lo < of_int hi - y then lo
                     else if of_int hi - y < y - of_int lo then hi
                     else if even lo then lo else hi)
               else if vlo then lo else hi)
      in if vlo \<or> vhi \<or> 17 \<le> k
         then (if of_int s = pow10 k then (1, n + 1, 1) else (s, n, k))
         else shortest x n (k + 1))"
  by pat_completeness auto
termination
  by (relation "measure (\<lambda>(x, n, k). nat (17 - k))") auto

declare shortest.simps [simp del]

definition positive_to_string :: "rat \<Rightarrow> string" where
  "positive_to_string x =
     (case shortest x (dec_exponent x) 1 of
        (s, n, k) \<Rightarrow>
          (let ds = dec_digits s
           in if k \<le> n \<and> n \<le> 21 then ds @ replicate (nat (n - k)) (CHR ''0'')
              else if 0 < n \<and> n \<le> 21 then take (nat n) ds @ ''.'' @ drop (nat n) ds
              else if - 6 < n \<and> n \<le> 0 then ''0.'' @ replicate (nat (- n)) (CHR ''0'') @ ds
              else (let e = n - 1;
                        es = (if e < 0 then ''-'' else ''+'') @ dec_digits \<bar>e\<bar>
                    in if k = 1 then ds @ ''e'' @ es
                       else take 1 ds @ ''.'' @ drop 1 ds @ ''e'' @ es)))"

fun number_to_string :: "jsnum \<Rightarrow> string" where
  "number_to_string NaN = ''NaN''"
| "number_to_string PInf = ''Infinity''"
| "number_to_string NInf = ''-Infinity''"
| "number_to_string (Fin x) =
     (if x = 0 then ''0''
      else if x < 0 then ''-'' @ positive_to_string (- x)
      else positive_to_string x)"


section \<open>The player facade (src/js/api/api.js) and the registry (src/js/api/global-api.js)\<close>

subsection \<open>Objects, references and the world\<close>

text \<open>
  Objects live in a store and are named by references, so that "the same instance" is
  equality of references. \<open>instances\<close> is the shared array of module \<open>api/players\<close>,
  \<open>instancesCreated\<close> the counter of api.js and \<open>uniqueIndex\<close> the counter
  \<open>_uniqueIndex\<close> of global-api.js.
\<close>

type_synonym ref = nat

datatype error = TypeError | ListenerFault nat

datatype dom_element = Element (element_id: string)

text \<open>
  An external function value (an event callback) is opaque: the model knows its identity
  and whether calling it throws, and records each call in the trace. Callbacks are
  assumed not to call back into the facade.
\<close>

datatype callback = Callback (cb_id: nat) (cb_throws: bool)

datatype listener = Listener (l_callback: callback) (l_once: bool)

text \<open>The two closures \<open>setupController\<close> subscribes on a controller, each capturing its facade.\<close>

datatype bridge = ReadyTick ref | ForwardAll ref

datatype effect =
    Tick ref string
  | ApiOff ref
  | ControllerNew ref
  | ControllerOn ref string
  | ControllerOff ref
  | PlayerDestroy ref
  | ControllerSetup ref
  | Invoked nat string
  | Splice nat

record plugin =
  addToPlayer :: "callback option"
  resize :: bool
  resizeHandler :: "callback option"

record controller =
  c_events :: "(string \<times> bridge) list"
  c_playerDestroy :: bool

record api =
  uniqueId :: nat
  api_id :: string
  api_element :: dom_element
  api_events :: "(string \<times> listener) list"
  api_controller :: ref
  plugins :: "(string \<times> plugin) list option"
  qoe :: "string list"

record world =
  instances :: "ref list"
  instancesCreated :: nat
  uniqueIndex :: nat
  apis :: "ref \<Rightarrow> api"
  next_api :: ref
  controllers :: "ref \<Rightarrow> controller"
  next_controller :: ref
  document :: "string list"
  jw_debug :: bool
  trace :: "effect list"

text \<open>
  What the code takes from its surroundings: whether the module is strict-mode code (an
  ES module is; the flag keeps the sloppy-mode reading available), the table of module
  \<open>events/events\<close> (constant name to event type, not under src/), and whether the
  engine exposes \<open>playerDestroy\<close>.
\<close>

record env =
  strict :: bool
  event_type :: "string \<Rightarrow> string"
  engine_playerDestroy :: bool

definition upd_api :: "world \<Rightarrow> ref \<Rightarrow> (api \<Rightarrow> api) \<Rightarrow> world" where
  "upd_api w a f = w\<lparr>apis := (apis w)(a := f (apis w a))\<rparr>"

definition upd_controller :: "world \<Rightarrow> ref \<Rightarrow> (controller \<Rightarrow> controller) \<Rightarrow> world" where
  "upd_controller w c f = w\<lparr>controllers := (controllers w)(c := f (controllers w c))\<rparr>"

definition note_effects :: "world \<Rightarrow> effect list \<Rightarrow> world" where
  "note_effects w es = w\<lparr>trace := trace w @ es\<rparr>"

subsection \<open>Events on the facade\<close>

text \<open>
  Modelled from the spec: module \<open>utils/backbone.events\<close> (\<open>Events.on\<close>, \<open>once\<close>,
  \<open>off\<close>, \<open>trigger\<close>, \<open>triggerSafe\<close>) is not under src/. Following the spec and the
  doc comments of api.js: \<open>on\<close>/\<open>once\<close> append a listener under the event name (nothing
  is attached when no callback is given); \<open>off\<close> with no argument removes every listener,
  and otherwise those matching the name and callback given; \<open>trigger\<close> calls the
  listeners of the name in order, then those bound to \<open>all\<close>, and a listener attached by
  \<open>once\<close> is removed when it is called; \<open>trigger\<close> lets a listener's exception
  propagate, \<open>triggerSafe\<close> swallows it and goes on.
\<close>

definition Api_on :: "world \<Rightarrow> ref \<Rightarrow> string \<Rightarrow> callback option \<Rightarrow> world" where
  "Api_on w a name callback =
     (case callback of
        None \<Rightarrow> w
      | Some f \<Rightarrow> upd_api w a (\<lambda>x. x\<lparr>api_events := api_events x @ [(name, Listener f False)]\<rparr>))"


definition retained :: "string option \<Rightarrow> callback option \<Rightarrow> string \<times> listener \<Rightarrow> bool" where
  "retained name callback e =
     ((case name of None \<Rightarrow> False | Some n \<Rightarrow> fst e \<noteq> n) \<or>
      (case callback of None \<Rightarrow> False | Some f \<Rightarrow> l_callback (snd e) \<noteq> f))"

definition Api_off :: "world \<Rightarrow> ref \<Rightarrow> string option \<Rightarrow> callback option \<Rightarrow> world" where
  "Api_off w a name callback =
     (if name = None \<and> callback = None
      then upd_api w a (\<lambda>x. x\<lparr>api_events := []\<rparr>)
      else upd_api w a (\<lambda>x. x\<lparr>api_events := filter (retained name callback) (api_events x)\<rparr>))"

definition invoke_one :: "ref \<Rightarrow> string \<Rightarrow> string \<times> listener \<Rightarrow> world \<Rightarrow> world" where
  "invoke_one a ty e w =
     note_effects
       (if l_once (snd e)
        then upd_api w a (\<lambda>x. x\<lparr>api_events := remove1 e (api_events x)\<rparr>)
        else w)
       [Invoked (cb_id (l_callback (snd e))) ty]"

fun invoke_all :: "bool \<Rightarrow> ref \<Rightarrow> string \<Rightarrow> (string \<times> listener) list \<Rightarrow> world \<Rightarrow> error option \<times> world" where
  "invoke_all safe a ty [] w = (None, w)"
| "invoke_all safe a ty (e # es) w =
     (if cb_throws (l_callback (snd e)) \<and> \<not> safe
      then (Some (ListenerFault (cb_id (l_callback (snd e)))), invoke_one a ty e w)
      else invoke_all safe a ty es (invoke_one a ty e w))"

definition Events_trigger :: "bool \<Rightarrow> world \<Rightarrow> ref \<Rightarrow> string \<Rightarrow> error option \<times> world" where
  "Events_trigger safe w a name =
     (let events = filter (\<lambda>e. fst e = name) (api_events (apis w a));
          allEvents = filter (\<lambda>e. fst e = ''all'') (api_events (apis w a))
      in case invoke_all safe a name events w of
           (Some err, w1) \<Rightarrow> (Some err, w1)
         | (None, w1) \<Rightarrow> invoke_all safe a name allEvents w1)"

text \<open>
  \<open>Api.trigger\<close> (api.js 212-224): with the process-wide debug flag set the event goes
  through \<open>Events.trigger\<close>, otherwise through \<open>Events.triggerSafe\<close>.
\<close>

definition Api_trigger :: "world \<Rightarrow> ref \<Rightarrow> string \<Rightarrow> error option \<times> world" where
  "Api_trigger w a name =
     (if jw_debug w then Events_trigger False w a name else Events_trigger True w a name)"

subsection \<open>The engine's event bridge\<close>

text \<open>
  \<open>setupController\<close> (api.js 18-31): a new controller, a listener on the ready event that
  ticks the facade's timer, and a wildcard listener that re-triggers every event on the
  facade.
\<close>

definition setupController :: "env \<Rightarrow> world \<Rightarrow> ref \<Rightarrow> ref \<times> world" where
  "setupController E w a =
     (let c = next_controller w;
          ready = event_type E ''JWPLAYER_READY'';
          w1 = w\<lparr>controllers := (controllers w)
                  (c := \<lparr>c_events = [], c_playerDestroy = engine_playerDestroy E\<rparr>),
                next_controller := Suc c\<rparr>;
          w2 = note_effects w1 [ControllerNew c];
          w3 = note_effects (upd_controller w2 c (\<lambda>x. x\<lparr>c_events := c_events x @ [(ready, ReadyTick a)]\<rparr>))
                 [ControllerOn c ready];
          w4 = note_effects (upd_controller w3 c (\<lambda>x. x\<lparr>c_events := c_events x @ [(''all'', ForwardAll a)]\<rparr>))
                 [ControllerOn c ''all'']
      in (c, w4))"

text \<open>
  An event of type \<open>ty\<close> emitted by the engine on controller \<open>c\<close> reaches the listeners
  the bridge attached there: those of the type first, then the wildcard ones.
\<close>

fun run_bridge :: "string \<Rightarrow> bridge list \<Rightarrow> world \<Rightarrow> error option \<times> world" where
  "run_bridge ty [] w = (None, w)"
| "run_bridge ty (ReadyTick a # bs) w =
     run_bridge ty bs (note_effects (upd_api w a (\<lambda>x. x\<lparr>qoe := qoe x @ [''ready'']\<rparr>)) [Tick a ''ready''])"
| "run_bridge ty (ForwardAll a # bs) w =
     (case Api_trigger w a ty of
        (Some err, w1) \<Rightarrow> (Some err, w1)
      | (None, w1) \<Rightarrow> run_bridge ty bs w1)"

definition controller_emit :: "world \<Rightarrow> ref \<Rightarrow> string \<Rightarrow> error option \<times> world" where
  "controller_emit w c ty =
     run_bridge ty
       (map snd (filter (\<lambda>e. fst e = ty) (c_events (controllers w c))) @
        map snd (filter (\<lambda>e. fst e = ''all'') (c_events (controllers w c)))) w"

subsection \<open>Lifecycle\<close>

text \<open>\<open>resetPlayer\<close> (api.js 33-43).\<close>

definition resetPlayer :: "world \<Rightarrow> ref \<Rightarrow> ref option \<Rightarrow> world" where
  "resetPlayer w a controller =
     (let w1 = note_effects (Api_off w a None None) [ApiOff a]
      in case controller of
           None \<Rightarrow> w1
         | Some c \<Rightarrow>
             (let w2 = note_effects (upd_controller w1 c (\<lambda>x. x\<lparr>c_events := []\<rparr>)) [ControllerOff c]
              in if c_playerDestroy (controllers w2 c) then note_effects w2 [PlayerDestroy c] else w2))"

text \<open>
  \<open>removePlayer\<close> (api.js 45-52): scanning from the end, the first entry with the
  facade's uniqueId is spliced out. \<open>last_index\<close> is the index the loop stops at.
\<close>

fun last_index :: "('a \<Rightarrow> bool) \<Rightarrow> 'a list \<Rightarrow> nat option" where
  "last_index P [] = None"
| "last_index P (x # xs) =
     (case last_index P xs of
        Some i \<Rightarrow> Some (Suc i)
      | None \<Rightarrow> if P x then Some 0 else None)"

definition removePlayer :: "world \<Rightarrow> ref \<Rightarrow> world" where
  "removePlayer w a =
     (case last_index (\<lambda>r. uniqueId (apis w r) = uniqueId (apis w a)) (instances w) of
        None \<Rightarrow> w
      | Some i \<Rightarrow>
          note_effects (w\<lparr>instances := take i (instances w) @ drop (Suc i) (instances w)\<rparr>) [Splice i])"

text \<open>The constructor of \<open>Api\<close> (api.js 61-81).\<close>

definition new_Api :: "env \<Rightarrow> world \<Rightarrow> dom_element \<Rightarrow> ref \<times> world" where
  "new_Api E w element =
     (let a = next_api w;
          w1 = w\<lparr>instancesCreated := Suc (instancesCreated w), next_api := Suc a,
                apis := (apis w)(a :=
                  \<lparr>uniqueId = instancesCreated w, api_id = element_id element,
                   api_element = element, api_events = [], api_controller = 0,
                   plugins = None, qoe = [''init'']\<rparr>)\<rparr>;
          w2 = note_effects w1 [Tick a ''init''];
          (c, w3) = setupController E w2 a
      in (a, upd_api w3 a (\<lambda>x. x\<lparr>api_controller := c\<rparr>)))"

text \<open>
  The deprecated subscription methods of the facade (api.js 707-869): method name to
  the event type it subscribes to.
\<close>

definition subscription_methods :: "env \<Rightarrow> (string \<times> string) list" where
  "subscription_methods E =
     [(''onBuffer'', ''buffer''), (''onPause'', ''pause''), (''onPlay'', ''play''),
      (''onIdle'', ''idle'')] @
     map (\<lambda>(m, k). (m, event_type E k))
      [(''onBufferChange'', ''JWPLAYER_MEDIA_BUFFER''),
       (''onBufferFull'', ''JWPLAYER_MEDIA_BUFFER_FULL''),
       (''onError'', ''JWPLAYER_ERROR''),
       (''onSetupError'', ''JWPLAYER_SETUP_ERROR''),
       (''onFullscreen'', ''JWPLAYER_FULLSCREEN''),
       (''onMeta'', ''JWPLAYER_MEDIA_META''),
       (''onMute'', ''JWPLAYER_MEDIA_MUTE''),
       (''onPlaylist'', ''JWPLAYER_PLAYLIST_LOADED''),
       (''onPlaylistItem'', ''JWPLAYER_PLAYLIST_ITEM''),
       (''onPlaylistComplete'', ''JWPLAYER_PLAYLIST_COMPLETE''),
       (''onReady'', ''JWPLAYER_READY''),
       (''onResize'', ''JWPLAYER_RESIZE''),
       (''onComplete'', ''JWPLAYER_MEDIA_COMPLETE''),
       (''onSeek'', ''JWPLAYER_MEDIA_SEEK''),
       (''onTime'', ''JWPLAYER_MEDIA_TIME''),
       (''onVolume'', ''JWPLAYER_MEDIA_VOLUME''),
       (''onBeforePlay'', ''JWPLAYER_MEDIA_BEFOREPLAY''),
       (''onBeforeComplete'', ''JWPLAYER_MEDIA_BEFORECOMPLETE''),
       (''onDisplayClick'', ''JWPLAYER_DISPLAY_CLICK''),
       (''onControls'', ''JWPLAYER_CONTROLS''),
       (''onQualityLevels'', ''JWPLAYER_MEDIA_LEVELS''),
       (''onQualityChange'', ''JWPLAYER_MEDIA_LEVEL_CHANGED''),
       (''onCaptionsList'', ''JWPLAYER_CAPTIONS_LIST''),
       (''onCaptionsChange'', ''JWPLAYER_CAPTIONS_CHANGED''),
       (''onAdError'', ''JWPLAYER_AD_ERROR''),
       (''onAdClick'', ''JWPLAYER_AD_CLICK''),
       (''onAdImpression'', ''JWPLAYER_AD_IMPRESSION''),
       (''onAdTime'', ''JWPLAYER_AD_TIME''),
       (''onAdComplete'', ''JWPLAYER_AD_COMPLETE''),
       (''onAdCompanions'', ''JWPLAYER_AD_COMPANIONS''),
       (''onAdSkipped'', ''JWPLAYER_AD_SKIPPED''),
       (''onAdPlay'', ''JWPLAYER_AD_PLAY''),
       (''onAdPause'', ''JWPLAYER_AD_PAUSE''),
       (''onAdMeta'', ''JWPLAYER_AD_META''),
       (''onCast'', ''JWPLAYER_CAST_SESSION''),
       (''onAudioTrackChange'', ''JWPLAYER_AUDIO_TRACK_CHANGED''),
       (''onAudioTracks'', ''JWPLAYER_AUDIO_TRACKS'')]"

text \<open>
  What a key of \<open>options.events\<close> names on the facade (\<open>this[evt]\<close>, api.js 110).
  api.js gives the facade the subscription methods above, \<open>setup\<close> and \<open>remove\<close>,
  methods whose call with one argument changes nothing (\<open>inert_methods\<close>: they read a
  field or return a constant), and methods whose effect is decided outside src/
  (\<open>external_methods\<close>: they reach the engine through \<open>callInternal\<close>, or hand the
  value to the Events or the plugins module as a name). Any other name is a function only
  when the object inherits one or an accessor returns one, which api.js does not decide.
  That, and what a call of an external function does, is the \<open>host\<close>: from the name,
  the value and the facade's listeners, \<open>other_call\<close> gives the exception when the
  call throws, the facade's listeners after the call, and the effects the call adds to
  the trace.
\<close>

record host =
  inherited_function :: "string \<Rightarrow> bool"
  other_call :: "string \<Rightarrow> callback option \<Rightarrow> (string \<times> listener) list \<Rightarrow>
                 error option \<times> (string \<times> listener) list \<times> effect list"

definition inert_methods :: "string list" where
  "inert_methods = [''getPlugin'', ''getAdBlock'', ''playAd'', ''pauseAd'', ''getRenderingMode'']"

definition external_methods :: "string list" where
  "external_methods =
     [''callInternal'', ''on'', ''once'', ''off'', ''trigger'', ''triggerSafe'', ''qoe'',
      ''getAudioTracks'', ''getBuffer'', ''getCaptions'', ''getCaptionsList'', ''getConfig'',
      ''getContainer'', ''getControls'', ''getCurrentAudioTrack'', ''getCurrentCaptions'',
      ''getCurrentQuality'', ''getDuration'', ''getFullscreen'', ''getHeight'', ''getItem'',
      ''getItemMeta'', ''getMeta'', ''getMute'', ''getPlaybackRate'', ''getPlaylist'',
      ''getPlaylistIndex'', ''getPlaylistItem'', ''getPosition'', ''getProvider'',
      ''getQualityLevels'', ''getSafeRegion'', ''getState'', ''getStretching'', ''getViewable'',
      ''getVisualQuality'', ''getVolume'', ''getWidth'', ''setCaptions'', ''setConfig'',
      ''setControls'', ''setCurrentAudioTrack'', ''setCurrentCaptions'', ''setCurrentQuality'',
      ''setFullscreen'', ''setMute'', ''setPlaybackRate'', ''setCues'', ''setVolume'', ''load'',
      ''play'', ''seek'', ''playlistNext'', ''playlistPrev'', ''playlistItem'', ''castToggle'',
      ''createInstream'', ''skipAd'', ''stop'', ''resize'', ''addButton'', ''removeButton'',
      ''attachMedia'', ''detachMedia'', ''isBeforeComplete'', ''isBeforePlay'', ''next'',
      ''pause'', ''addPlugin'', ''registerPlugin'', ''dispatchEvent'', ''removeEventListener'']"

datatype member = NoFunction | Subscription string | SetupMethod | RemoveMethod | Inert | External

definition facade_member :: "env \<Rightarrow> host \<Rightarrow> string \<Rightarrow> member" where
  "facade_member E H evt =
     (case map_of (subscription_methods E) evt of
        Some ty \<Rightarrow> Subscription ty
      | None \<Rightarrow>
          if evt = ''setup'' then SetupMethod
          else if evt = ''remove'' then RemoveMethod
          else if evt \<in> set inert_methods then Inert
          else if evt \<in> set external_methods \<or> inherited_function H evt then External
          else NoFunction)"

text \<open>
  A call of an external function on facade \<open>a\<close> with the value \<open>val\<close>, as the host
  has it. Such a call reaches neither the registry nor the subscriptions of a bridge: in
  api.js only \<open>removePlayer\<close>, \<open>setupController\<close> and \<open>resetPlayer\<close> touch
  those.
\<close>

definition foreign_call :: "host \<Rightarrow> world \<Rightarrow> ref \<Rightarrow> string \<Rightarrow> callback option \<Rightarrow> error option \<times> world" where
  "foreign_call H w a evt val =
     (case other_call H evt val (api_events (apis w a)) of
        (err, ls, effs) \<Rightarrow> (err, note_effects (upd_api w a (\<lambda>x. x\<lparr>api_events := ls\<rparr>)) effs))"

text \<open>
  \<open>setup\<close> (api.js 101-120), in parts. \<open>rebuild_engine\<close> is lines 102-105: the
  tick, \<open>resetPlayer\<close> on the current controller, and the new controller assigned to
  \<open>_controller\<close>. \<open>controller_setup\<close> is lines 116-117, the options handed to the
  current controller.
\<close>

definition rebuild_engine :: "env \<Rightarrow> world \<Rightarrow> ref \<Rightarrow> world" where
  "rebuild_engine E w a =
     (let w1 = note_effects (upd_api w a (\<lambda>x. x\<lparr>qoe := qoe x @ [''setup'']\<rparr>)) [Tick a ''setup''];
          w2 = resetPlayer w1 a (Some (api_controller (apis w1 a)));
          sc = setupController E w2 a
      in upd_api (snd sc) a (\<lambda>x. x\<lparr>api_controller := fst sc\<rparr>))"

definition controller_setup :: "world \<Rightarrow> ref \<Rightarrow> world" where
  "controller_setup w a = note_effects w [ControllerSetup (api_controller (apis w a))]"

text \<open>\<open>remove\<close> (api.js 125-136).\<close>

definition Api_remove :: "world \<Rightarrow> ref \<Rightarrow> (error + ref) \<times> world" where
  "Api_remove w a =
     (let w1 = removePlayer w a
      in case Api_trigger w1 a ''remove'' of
           (Some err, w2) \<Rightarrow> (Inl err, w2)
         | (None, w2) \<Rightarrow> (Inr a, resetPlayer w2 a (Some (api_controller (apis w2 a)))))"

text \<open>
  One round of the loop over \<open>options.events\<close> in \<open>setup\<close> (api.js 109-113):
  \<open>const fn = this[evt]; if (typeof fn === 'function') fn.call(this, val)\<close>. A key that
  names no function is skipped. A subscription method passes the value to \<open>on\<close> under
  its event type. \<open>remove\<close> ignores the value. \<open>setup\<close> takes the value as its
  options: with \<open>undefined\<close> it throws when it reads \<open>options.events\<close>, after lines
  102-105; a function value has no \<open>events\<close>, so the inner loop binds nothing and the
  value goes to the new controller.
\<close>

definition call_member :: "env \<Rightarrow> host \<Rightarrow> ref \<Rightarrow> string \<Rightarrow> callback option \<Rightarrow> world \<Rightarrow> error option \<times> world" where
  "call_member E H a evt val w =
     (case facade_member E H evt of
        NoFunction \<Rightarrow> (None, w)
      | Inert \<Rightarrow> (None, w)
      | Subscription ty \<Rightarrow> (None, Api_on w a ty val)
      | RemoveMethod \<Rightarrow>
          (case Api_remove w a of
             (Inl err, w1) \<Rightarrow> (Some err, w1)
           | (Inr r, w1) \<Rightarrow> (None, w1))
      | SetupMethod \<Rightarrow>
          (case val of
             None \<Rightarrow> (Some TypeError, rebuild_engine E w a)
           | Some f \<Rightarrow> (None, controller_setup (rebuild_engine E w a) a))
      | External \<Rightarrow> foreign_call H w a evt val)"

text \<open>
  The loop (api.js 108-114), over the entries of \<open>options.events\<close> in their order; an
  exception thrown by a call ends it.
\<close>

fun bind_events :: "env \<Rightarrow> host \<Rightarrow> ref \<Rightarrow> (string \<times> callback option) list \<Rightarrow> world \<Rightarrow> error option \<times> world" where
  "bind_events E H a [] w = (None, w)"
| "bind_events E H a ((evt, val) # rest) w =
     (case call_member E H a evt val w of
        (Some err, w1) \<Rightarrow> (Some err, w1)
      | (None, w1) \<Rightarrow> bind_events E H a rest w1)"

text \<open>
  The options whose \<open>events\<close> only subscribe: every key names a subscription method,
  an inert method or no function. \<open>bound_listeners\<close> is what such options bind: for
  each subscription method that comes with a callback, a listener under its event type.
\<close>

definition binds_only :: "env \<Rightarrow> host \<Rightarrow> (string \<times> callback option) list \<Rightarrow> bool" where
  "binds_only E H evs =
     list_all (\<lambda>e. case facade_member E H (fst e) of
                      NoFunction \<Rightarrow> True | Subscription ty \<Rightarrow> True | Inert \<Rightarrow> True
                    | _ \<Rightarrow> False) evs"

definition bound_listeners :: "env \<Rightarrow> (string \<times> callback option) list \<Rightarrow> (string \<times> listener) list" where
  "bound_listeners E evs =
     concat (map (\<lambda>e. case (map_of (subscription_methods E) (fst e), snd e) of
                          (Some ty, Some f) \<Rightarrow> [(ty, Listener f False)]
                        | _ \<Rightarrow> []) evs)"

text \<open>
  \<open>setup\<close> as a whole. \<open>options\<close> is \<open>None\<close> for a call without an options object
  (reading \<open>options.events\<close> then throws, after lines 102-105); \<open>Some evs\<close> carries
  the entries of \<open>options.events\<close> (none when the field is absent).
\<close>

definition Api_setup :: "env \<Rightarrow> host \<Rightarrow> world \<Rightarrow> ref \<Rightarrow> (string \<times> callback option) list option \<Rightarrow> (error + ref) \<times> world" where
  "Api_setup E H w a options =
     (let w4 = rebuild_engine E w a
      in case options of
           None \<Rightarrow> (Inl TypeError, w4)
         | Some evs \<Rightarrow>
             (case bind_events E H a evs w4 of
                (Some err, w5) \<Rightarrow> (Inl err, w5)
              | (None, w5) \<Rightarrow> (Inr a, controller_setup w5 a)))"

text \<open>
  \<open>addPlugin\<close> (api.js 640-650). The last statement of the source reads
  \<open>this.on('resize'. pluginInstance.resizeHandler)\<close>: its argument is the member
  \<open>resizeHandler\<close> of the member \<open>pluginInstance\<close> of the string \<open>'resize'\<close>; a string has
  no such member, so reading \<open>resizeHandler\<close> of \<open>undefined\<close> throws a TypeError.
\<close>

definition Api_addPlugin :: "world \<Rightarrow> ref \<Rightarrow> string \<Rightarrow> plugin \<Rightarrow> (error + unit) \<times> world" where
  "Api_addPlugin w a name pluginInstance =
     (let w1 = upd_api w a (\<lambda>x. x\<lparr>plugins :=
                 Some (AList.update name pluginInstance (case plugins x of None \<Rightarrow> [] | Some ps \<Rightarrow> ps))\<rparr>);
          w2 = Api_on w1 a ''ready'' (addToPlayer pluginInstance)
      in if resize pluginInstance then (Inl TypeError, w2) else (Inr (), w2))"

definition Api_getPlugin :: "world \<Rightarrow> ref \<Rightarrow> string \<Rightarrow> plugin option" where
  "Api_getPlugin w a name = (case plugins (apis w a) of None \<Rightarrow> None | Some ps \<Rightarrow> map_of ps name)"

subsection \<open>The registry\<close>

datatype query = QUndefined | QNull | QBool bool | QNum jsnum | QStr string
  | QElement dom_element | QObject

datatype selected = Player ref | PluginRegistrar

fun falsy_query :: "query \<Rightarrow> bool" where
  "falsy_query QUndefined = True"
| "falsy_query QNull = True"
| "falsy_query (QBool b) = (\<not> b)"
| "falsy_query (QNum n) = (n = NaN \<or> n = Fin 0)"
| "falsy_query (QStr s) = (s = [])"
| "falsy_query (QElement e) = False"
| "falsy_query QObject = False"

text \<open>\<open>instances[n]\<close> for a Number \<open>n\<close>: an element only at an integer index within the array.\<close>

fun instance_at :: "ref list \<Rightarrow> jsnum \<Rightarrow> ref option" where
  "instance_at xs (Fin r) =
     (if 0 \<le> r \<and> r = of_int \<lfloor>r\<rfloor> \<and> nat \<lfloor>r\<rfloor> < length xs then Some (xs ! nat \<lfloor>r\<rfloor>) else None)"
| "instance_at xs n = None"

text \<open>\<open>_playerById\<close> (global-api.js 44-52).\<close>

definition playerById :: "world \<Rightarrow> string \<Rightarrow> ref option" where
  "playerById w i = find (\<lambda>r. api_id (apis w r) = i) (instances w)"

text \<open>\<open>document.getElementById\<close>, over the ids of the elements in the page.\<close>

definition getElementById :: "world \<Rightarrow> string \<Rightarrow> dom_element option" where
  "getElementById w i = (if i \<in> set (document w) then Some (Element i) else None)"

text \<open>
  \<open>_addPlayer\<close> (global-api.js 54-59). \<open>uniqueId\<close> was defined by the constructor with a
  getter and no setter, so the assignment \<open>api.uniqueId = _uniqueIndex\<close> throws a
  TypeError in strict-mode code and is ignored otherwise.
\<close>

definition addPlayer :: "env \<Rightarrow> world \<Rightarrow> ref \<Rightarrow> (error + ref) \<times> world" where
  "addPlayer E w a =
     (let w1 = w\<lparr>uniqueIndex := Suc (uniqueIndex w)\<rparr>
      in if strict E then (Inl TypeError, w1)
         else (Inr a, w1\<lparr>instances := instances w1 @ [a]\<rparr>))"

text \<open>\<open>selectPlayer\<close> (global-api.js 12-42).\<close>

definition selectPlayer :: "env \<Rightarrow> world \<Rightarrow> query \<Rightarrow> (error + selected) \<times> world" where
  "selectPlayer E w query =
     (let (player, domElement) =
            (if falsy_query query then (instance_at (instances w) (Fin 0), None)
             else case query of
                 QStr s \<Rightarrow>
                   (case playerById w s of
                      Some p \<Rightarrow> (Some p, None)
                    | None \<Rightarrow> (None, getElementById w s))
               | QNum n \<Rightarrow> (instance_at (instances w) n, None)
               | QElement e \<Rightarrow> (playerById w (element_id e), Some e)
               | _ \<Rightarrow> (None, None))
      in case player of
           Some p \<Rightarrow> (Inr (Player p), w)
         | None \<Rightarrow>
            (case domElement of
               Some e \<Rightarrow>
                 (let (a, w1) = new_Api E w e
                  in case addPlayer E w1 a of
                       (Inl err, w2) \<Rightarrow> (Inl err, w2)
                     | (Inr p, w2) \<Rightarrow> (Inr (Player p), w2))
             | None \<Rightarrow> (Inr PluginRegistrar, w)))"

text \<open>A page with the given element ids, before any player exists.\<close>

definition page :: "string list \<Rightarrow> world" where
  "page ids =
     \<lparr>instances = [], instancesCreated = 0, uniqueIndex = 0,
      apis = (\<lambda>_. \<lparr>uniqueId = 0, api_id = [], api_element = Element [], api_events = [],
                   api_controller = 0, plugins = None, qoe = []\<rparr>),
      next_api = 0,
      controllers = (\<lambda>_. \<lparr>c_events = [], c_playerDestroy = False\<rparr>),
      next_controller = 0, document = ids, jw_debug = False, trace = []\<rparr>"

definition sloppy :: env where
  "sloppy = \<lparr>strict = False, event_type = (\<lambda>k. k), engine_playerDestroy = True\<rparr>"

definition module_code :: env where
  "module_code = \<lparr>strict = True, event_type = (\<lambda>k. k), engine_playerDestroy = True\<rparr>"

section \<open>Values, strings and the configuration\<close>

subsection \<open>Strings\<close>

definition is_space :: "char \<Rightarrow> bool" where
  "is_space c \<longleftrightarrow> c \<in> set [CHR 0x09, CHR 0x0A, CHR 0x0B, CHR 0x0C, CHR 0x0D, CHR '' '']"

definition is_digit :: "char \<Rightarrow> bool" where
  "is_digit c \<longleftrightarrow> c \<in> set ''0123456789''"

definition digits_value :: "string \<Rightarrow> int" where
  "digits_value ds = foldl (\<lambda>n c. 10 * n + (of_char c - 48)) 0 ds"

definition starts_with :: "string \<Rightarrow> string \<Rightarrow> bool" where
  "starts_with p s \<longleftrightarrow> take (length p) s = p"

definition ends_with :: "string \<Rightarrow> string \<Rightarrow> bool" where
  "ends_with p s \<longleftrightarrow> length p \<le> length s \<and> drop (length s - length p) s = p"

fun index_of :: "string \<Rightarrow> string \<Rightarrow> nat option" where
  "index_of p [] = (if p = [] then Some 0 else None)"
| "index_of p (c # cs) =
     (if starts_with p (c # cs) then Some 0 else map_option Suc (index_of p cs))"

definition replace_first :: "string \<Rightarrow> string \<Rightarrow> string \<Rightarrow> string" where
  "replace_first p r s =
     (case index_of p s of
        None \<Rightarrow> s
      | Some i \<Rightarrow> take i s @ r @ drop (i + length p) s)"

definition force_trailing_slash :: "string \<Rightarrow> string" where
  "force_trailing_slash s = (if ends_with ''/'' s then s else s @ ''/'')"

definition is_percentage :: "string \<Rightarrow> bool" where
  "is_percentage s \<longleftrightarrow>
     ends_with ''%'' s \<and>
     (let body = butlast s; rest = dropWhile is_digit body
      in if rest = [] then body \<noteq> []
         else hd rest = CHR ''.'' \<and> tl rest \<noteq> [] \<and> list_all is_digit (tl rest))"

definition parse_exponent :: "string \<Rightarrow> int" where
  "parse_exponent s =
     (if s \<noteq> [] \<and> (hd s = CHR ''e'' \<or> hd s = CHR ''E'')
      then (let r = tl s;
                neg = (r \<noteq> [] \<and> hd r = CHR ''-'');
                r1 = (if r \<noteq> [] \<and> (hd r = CHR ''-'' \<or> hd r = CHR ''+'') then tl r else r);
                ds = takeWhile is_digit r1
            in if neg then - digits_value ds else digits_value ds)
      else 0)"

definition parseFloat :: "string \<Rightarrow> jsnum" where
  "parseFloat str =
     (let s = dropWhile is_space str;
          neg = (s \<noteq> [] \<and> hd s = CHR ''-'');
          s1 = (if s \<noteq> [] \<and> (hd s = CHR ''-'' \<or> hd s = CHR ''+'') then tl s else s)
      in if starts_with ''Infinity'' s1 then (if neg then NInf else PInf)
         else
           (let d1 = takeWhile is_digit s1;
                r1 = dropWhile is_digit s1;
                dot = (r1 \<noteq> [] \<and> hd r1 = CHR ''.'');
                d2 = (if dot then takeWhile is_digit (tl r1) else []);
                r2 = (if dot then dropWhile is_digit (tl r1) else r1)
            in if d1 = [] \<and> d2 = [] then NaN
               else
                 (let m = of_int (digits_value (d1 @ d2)) *
                          pow10 (parse_exponent r2 - int (length d2))
                  in to_double (if neg then - m else m))))"

subsection \<open>Values\<close>

datatype jsval =
    JUndefined
  | JNull
  | JBool bool
  | JNum jsnum
  | JStr string
  | JArr "jsval list"
  | JObj "(string \<times> jsval) list"

type_synonym jsobj = "(string \<times> jsval) list"

fun truthy :: "jsval \<Rightarrow> bool" where
  "truthy JUndefined = False"
| "truthy JNull = False"
| "truthy (JBool b) = b"
| "truthy (JNum n) = (n \<noteq> NaN \<and> n \<noteq> Fin 0)"
| "truthy (JStr s) = (s \<noteq> [])"
| "truthy (JArr xs) = True"
| "truthy (JObj kvs) = True"

fun get_prop :: "jsval \<Rightarrow> string \<Rightarrow> jsval" where
  "get_prop (JObj kvs) k = (case map_of kvs k of None \<Rightarrow> JUndefined | Some v \<Rightarrow> v)"
| "get_prop v k = JUndefined"

definition get :: "jsobj \<Rightarrow> string \<Rightarrow> jsval" where
  "get obj k = (case map_of obj k of None \<Rightarrow> JUndefined | Some v \<Rightarrow> v)"

definition put :: "string \<Rightarrow> jsval \<Rightarrow> jsobj \<Rightarrow> jsobj" where
  "put k v obj = AList.update k v obj"

fun isObject :: "jsval \<Rightarrow> bool" where
  "isObject (JObj kvs) = True"
| "isObject (JArr xs) = True"
| "isObject v = False"

fun isString :: "jsval \<Rightarrow> bool" where
  "isString (JStr s) = True"
| "isString v = False"

fun isNumber :: "jsval \<Rightarrow> bool" where
  "isNumber (JNum n) = True"
| "isNumber v = False"

fun isBoolean :: "jsval \<Rightarrow> bool" where
  "isBoolean (JBool b) = True"
| "isBoolean v = False"

fun isArray :: "jsval \<Rightarrow> bool" where
  "isArray (JArr xs) = True"
| "isArray v = False"

fun strict_eq :: "jsval \<Rightarrow> jsval \<Rightarrow> bool" where
  "strict_eq JUndefined JUndefined = True"
| "strict_eq JNull JNull = True"
| "strict_eq (JBool a) (JBool b) = (a = b)"
| "strict_eq (JNum a) (JNum b) = (a \<noteq> NaN \<and> a = b)"
| "strict_eq (JStr a) (JStr b) = (a = b)"
| "strict_eq a b = False"

definition join :: "string \<Rightarrow> string list \<Rightarrow> string" where
  "join sep xs = (case xs of [] \<Rightarrow> [] | y # ys \<Rightarrow> foldl (\<lambda>acc x. acc @ sep @ x) y ys)"

fun js_toString :: "jsval \<Rightarrow> string option" where
  "js_toString JUndefined = None"
| "js_toString JNull = None"
| "js_toString (JBool b) = Some (if b then ''true'' else ''false'')"
| "js_toString (JNum n) = Some (number_to_string n)"
| "js_toString (JStr s) = Some s"
| "js_toString (JObj kvs) = (if map_of kvs ''toString'' = None then Some ''[object Object]'' else None)"
| "js_toString (JArr xs) =
     (let parts = map (\<lambda>x. if x = JUndefined \<or> x = JNull then Some [] else js_toString x) xs
      in if list_all (\<lambda>p. p \<noteq> None) parts then Some (join '','' (map the parts)) else None)"

fun own_props :: "jsval \<Rightarrow> (string \<times> jsval) list" where
  "own_props (JObj kvs) = kvs"
| "own_props (JArr xs) = zip (map (\<lambda>i. dec_digits (int i)) [0..<length xs]) xs"
| "own_props (JStr s) = zip (map (\<lambda>i. dec_digits (int i)) [0..<length s]) (map (\<lambda>c. JStr [c]) s)"
| "own_props v = []"

definition extend_obj :: "jsobj \<Rightarrow> jsval list \<Rightarrow> jsobj" where
  "extend_obj obj sources =
     foldl (\<lambda>acc source.
              if truthy source then foldl (\<lambda>ob kv. put (fst kv) (snd kv) ob) acc (own_props source)
              else acc)
       obj sources"

definition pick :: "jsobj \<Rightarrow> string list \<Rightarrow> jsobj" where
  "pick obj keys =
     foldl (\<lambda>copy key. case map_of obj key of None \<Rightarrow> copy | Some v \<Rightarrow> put key v copy) [] keys"


subsection \<open>Config normalisation (the second module of src/js/api/api.js)\<close>

record config_env =
  jw_defaults :: jsval
  persisted :: jsval
  serialize :: "jsval \<Rightarrow> jsval"
  utils_exists :: "jsval \<Rightarrow> bool"
  script_path :: string
  load_from :: string
  protocol :: string

definition localization_defaults :: jsobj where
  "localization_defaults =
     [(''player'', JStr ''Video Player''),
      (''play'', JStr ''Play''),
      (''playback'', JStr ''Start playback''),
      (''pause'', JStr ''Pause''),
      (''volume'', JStr ''Volume''),
      (''prev'', JStr ''Previous''),
      (''next'', JStr ''Next''),
      (''cast'', JStr ''Chromecast''),
      (''airplay'', JStr ''Airplay''),
      (''fullscreen'', JStr ''Fullscreen''),
      (''playlist'', JStr ''Playlist''),
      (''hd'', JStr ''Quality''),
      (''cc'', JStr ''Closed captions''),
      (''audioTracks'', JStr ''Audio tracks''),
      (''playbackRates'', JStr ''Playback rates''),
      (''normal'', JStr ''Normal''),
      (''replay'', JStr ''Replay''),
      (''buffer'', JStr ''Loading''),
      (''more'', JStr ''More''),
      (''liveBroadcast'', JStr ''Live broadcast''),
      (''loadingAd'', JStr ''Loading ad''),
      (''rewind'', JStr ''Rewind 10s''),
      (''nextUp'', JStr ''Next Up''),
      (''nextUpClose'', JStr ''Next Up Close''),
      (''related'', JStr ''Discover''),
      (''close'', JStr ''Close'')]"

definition Defaults :: jsobj where
  "Defaults =
     [(''autostart'', JBool False),
      (''controls'', JBool True),
      (''displaytitle'', JBool True),
      (''displaydescription'', JBool True),
      (''mobilecontrols'', JBool False),
      (''defaultPlaybackRate'', JNum (Fin 1)),
      (''playbackRateControls'', JBool False),
      (''repeat'', JBool False),
      (''castAvailable'', JBool False),
      (''skin'', JStr ''seven''),
      (''stretching'', JStr ''uniform''),
      (''mute'', JBool False),
      (''volume'', JNum (Fin 90)),
      (''width'', JNum (Fin 480)),
      (''height'', JNum (Fin 270)),
      (''audioMode'', JBool False),
      (''localization'', JObj localization_defaults),
      (''renderCaptionsNatively'', JBool True),
      (''nextUpDisplay'', JBool True)]"

text \<open>\<open>_deserialize\<close> (lines 928-932).\<close>

definition deserialize :: "config_env \<Rightarrow> jsobj \<Rightarrow> jsobj" where
  "deserialize E options = map (\<lambda>kv. (fst kv, serialize E (snd kv))) options"

text \<open>
  \<open>_normalizeSize\<close> (lines 934-939). Reading \<open>slice\<close> of \<open>undefined\<close> or \<open>null\<close> throws;
  a number or a boolean has no \<open>slice\<close>; an array's \<open>slice(-2)\<close> is an array, never
  \<open>'px'\<close>; an object with a truthy member \<open>slice\<close> is called on it, and no value of the
  model can be called.
\<close>

fun normalizeSize :: "jsval \<Rightarrow> error + jsval" where
  "normalizeSize JUndefined = Inl TypeError"
| "normalizeSize JNull = Inl TypeError"
| "normalizeSize (JStr s) =
     Inr (if drop (length s - 2) s = ''px'' then JStr (take (length s - 2) s) else JStr s)"
| "normalizeSize (JObj kvs) =
     (if truthy (get_prop (JObj kvs) ''slice'') then Inl TypeError else Inr (JObj kvs))"
| "normalizeSize v = Inr v"

text \<open>\<open>_evaluateAspectRatio\<close> (lines 1042-1062).\<close>

definition evaluateAspectRatio :: "config_env \<Rightarrow> jsval \<Rightarrow> jsval \<Rightarrow> error + jsval" where
  "evaluateAspectRatio E ar width =
     (case js_toString width of
        None \<Rightarrow> Inl TypeError
      | Some ws \<Rightarrow>
          if index_of ''%'' ws = None then Inr (JNum (Fin 0))
          else
            (case ar of
               JStr a \<Rightarrow>
                 if utils_exists E ar
                 then
                   (if is_percentage a then Inr ar
                    else
                      (case index_of '':'' a of
                         None \<Rightarrow> Inr (JNum (Fin 0))
                       | Some index \<Rightarrow>
                           (let w = parseFloat (take index a);
                                h = parseFloat (drop (index + 1) a)
                            in if js_le w (Fin 0) \<or> js_le h (Fin 0) then Inr (JNum (Fin 0))
                               else Inr (JStr (number_to_string (js_mul (js_div h w) (Fin 100)) @ ''%'')))))
                 else Inr (JNum (Fin 0))
             | _ \<Rightarrow> Inr (JNum (Fin 0))))"

definition bindE :: "error + 'a \<Rightarrow> ('a \<Rightarrow> error + 'b) \<Rightarrow> error + 'b" where
  "bindE r f = (case r of Inl e \<Rightarrow> Inl e | Inr x \<Rightarrow> f x)"

text \<open>Lines 941-949: the layers are merged.\<close>

definition merge_layers :: "config_env \<Rightarrow> jsval \<Rightarrow> jsobj" where
  "merge_layers E options =
     (let allOptions = deserialize E (extend_obj [] [jw_defaults E, persisted E, options]);
          allOptions = put ''localization''
             (JObj (extend_obj [] [JObj localization_defaults, get allOptions ''localization'']))
             allOptions
      in extend_obj [] [JObj Defaults, JObj allOptions])"

text \<open>Lines 950-953: the base path. \<open>replace\<close> exists on strings only.\<close>

definition resolve_base :: "config_env \<Rightarrow> jsobj \<Rightarrow> error + jsobj" where
  "resolve_base E config =
     (let config = (if strict_eq (get config ''base'') (JStr ''.'')
                    then put ''base'' (JStr (script_path E)) config else config);
          base = (if truthy (get config ''base'') then get config ''base'' else JStr (load_from E))
      in case base of
           JStr s \<Rightarrow> Inr (put ''base'' (JStr (force_trailing_slash s)) config)
         | _ \<Rightarrow> Inl TypeError)"

text \<open>Lines 955-956.\<close>

definition normalize_sizes :: "jsobj \<Rightarrow> error + jsobj" where
  "normalize_sizes config =
     bindE (normalizeSize (get config ''width'')) (\<lambda>w.
     bindE (normalizeSize (get (put ''width'' w config) ''height'')) (\<lambda>h.
     Inr (put ''height'' h (put ''width'' w config))))"

text \<open>Lines 957-966: the flash assets.\<close>

definition http_scheme :: "jsval \<Rightarrow> error + jsval" where
  "http_scheme v = (case v of JStr s \<Rightarrow> Inr (JStr (replace_first ''https'' ''http'' s))
                    | _ \<Rightarrow> Inl TypeError)"

definition plus_string :: "jsval \<Rightarrow> string \<Rightarrow> jsval" where
  "plus_string v s = (case v of JStr p \<Rightarrow> JStr (p @ s) | _ \<Rightarrow> JStr s)"

definition flash_assets :: "config_env \<Rightarrow> jsobj \<Rightarrow> error + jsobj" where
  "flash_assets E config =
     (let pathToFlash = (if script_path E \<noteq> [] then JStr (script_path E) else get config ''base'');
          config = put ''flashplayer''
            (if truthy (get config ''flashplayer'') then get config ''flashplayer''
             else plus_string pathToFlash ''jwplayer.flash.swf'') config;
          config = put ''flashloader''
            (if truthy (get config ''flashloader'') then get config ''flashloader''
             else plus_string pathToFlash ''jwplayer.loader.swf'') config
      in if protocol E = ''http:''
         then bindE (http_scheme (get config ''flashplayer'')) (\<lambda>p.
              bindE (http_scheme (get (put ''flashplayer'' p config) ''flashloader'')) (\<lambda>l.
              Inr (put ''flashloader'' l (put ''flashplayer'' p config))))
         else Inr config)"

text \<open>Line 968.\<close>

definition aspect_ratio :: "config_env \<Rightarrow> jsobj \<Rightarrow> error + jsobj" where
  "aspect_ratio E config =
     bindE (evaluateAspectRatio E (get config ''aspectratio'') (get config ''width'')) (\<lambda>ar.
     Inr (put ''aspectratio'' ar config))"

text \<open>Lines 970-976: a structured skin is unpacked.\<close>

definition unpack_skin :: "jsobj \<Rightarrow> jsobj" where
  "unpack_skin config =
     (let skin = get config ''skin''
      in if isObject skin
         then put ''skin'' (if isString (get_prop skin ''name'') then get_prop skin ''name''
                           else get Defaults ''skin'')
             (put ''skinColorBackground'' (get_prop skin ''background'')
             (put ''skinColorActive'' (get_prop skin ''active'')
             (put ''skinColorInactive'' (get_prop skin ''inactive'')
             (put ''skinUrl'' (get_prop skin ''url'') config))))
         else config)"

text \<open>
  Lines 978-981: the extension of a legacy skin name is removed when it stands after the
  first character. The warning on the console is not modelled.
\<close>

definition strip_xml :: "jsobj \<Rightarrow> jsobj" where
  "strip_xml config =
     (case get config ''skin'' of
        JStr s \<Rightarrow>
          (case index_of ''.xml'' s of
             None \<Rightarrow> config
           | Some i \<Rightarrow> if 0 < i then put ''skin'' (JStr (replace_first ''.xml'' [] s)) config
                       else config)
      | _ \<Rightarrow> config)"

definition resolve_skin :: "jsobj \<Rightarrow> jsobj" where
  "resolve_skin config = strip_xml (unpack_skin config)"

text \<open>Lines 983-1001: the playback rate controls.\<close>

definition validRatesFilter :: "jsval \<Rightarrow> bool" where
  "validRatesFilter v =
     (case v of JNum n \<Rightarrow> js_le (Fin (1 / 4)) n \<and> js_le n (Fin 4) | _ \<Rightarrow> False)"

definition default_rates :: jsval where
  "default_rates = JArr [JNum (Fin (1 / 2)), JNum (Fin 1), JNum (Fin (5 / 4)), JNum (Fin (3 / 2)), JNum (Fin 2)]"

definition rate_controls :: "jsobj \<Rightarrow> jsobj" where
  "rate_controls config =
     (if truthy (get config ''playbackRateControls'')
      then
        (let playbackRates =
               (case get config ''playbackRateControls'' of
                  JBool b \<Rightarrow> default_rates
                | JArr xs \<Rightarrow> (if filter validRatesFilter xs \<noteq> []
                              then JArr (filter validRatesFilter xs) else JBool False)
                | _ \<Rightarrow> JUndefined)
         in if truthy playbackRates
            then put ''playbackRates'' playbackRates (put ''playbackRateControls'' playbackRates config)
            else put ''playbackRateControls'' (JBool False) config)
      else config)"

text \<open>
  Lines 1003-1008. When \<open>playbackRateControls\<close> is truthy here it is an array (the block
  above left an array or \<open>false\<close>), and \<open>indexOf\<close> compares with \<open>===\<close>.
\<close>

definition default_rate :: "jsobj \<Rightarrow> jsobj" where
  "default_rate config =
     (let config =
            (if \<not> truthy (get config ''playbackRateControls'') \<or>
                (case get config ''playbackRateControls'' of
                   JArr xs \<Rightarrow> \<not> list_ex (\<lambda>x. strict_eq x (get config ''defaultPlaybackRate'')) xs
                 | _ \<Rightarrow> False)
             then put ''defaultPlaybackRate'' (JNum (Fin 1)) config else config);
          config = put ''playbackRate'' (get config ''defaultPlaybackRate'') config
      in put ''playbackRates''
           (if truthy (get config ''playbackRates'') then get config ''playbackRates'' else JBool False)
           config)"

text \<open>Lines 1010-1012.\<close>

definition drop_unset_aspect :: "jsobj \<Rightarrow> jsobj" where
  "drop_unset_aspect config =
     (if \<not> truthy (get config ''aspectratio'') then AList.delete ''aspectratio'' config else config)"

text \<open>Lines 1014-1034: the playlist.\<close>

definition item_fields :: "string list" where
  "item_fields = [''title'', ''description'', ''type'', ''mediaid'', ''image'', ''file'',
                  ''sources'', ''tracks'', ''preload'']"

definition resolve_playlist :: "jsobj \<Rightarrow> jsobj" where
  "resolve_playlist config =
     (let configPlaylist = get config ''playlist''
      in if \<not> truthy configPlaylist
         then put ''playlist'' (JArr [JObj (pick config item_fields)]) config
         else if isArray (get_prop configPlaylist ''playlist'')
         then put ''playlist'' (get_prop configPlaylist ''playlist'')
                (put ''feedData'' configPlaylist config)
         else config)"

text \<open>Line 1036.\<close>

definition quality_labels :: "jsobj \<Rightarrow> jsobj" where
  "quality_labels config =
     put ''qualityLabels''
       (if truthy (get config ''qualityLabels'') then get config ''qualityLabels''
        else get config ''hlslabels'') config"

text \<open>\<open>createConfig\<close> (lines 941-1039).\<close>

definition createConfig :: "config_env \<Rightarrow> jsval \<Rightarrow> error + jsobj" where
  "createConfig E options =
     bindE (resolve_base E (merge_layers E options)) (\<lambda>config.
     bindE (normalize_sizes config) (\<lambda>config.
     bindE (flash_assets E config) (\<lambda>config.
     bindE (aspect_ratio E config) (\<lambda>config.
     Inr (quality_labels (resolve_playlist (drop_unset_aspect
           (default_rate (rate_controls (resolve_skin config))))))))))"

text \<open>
  Modelled from the spec: \<open>utils.serialize\<close> and \<open>utils.exists\<close> (module
  \<open>utils/helpers\<close>) are not under src/. The spec has persisted values, always encoded as
  strings, deserialized "to their natural type - boolean, number, or structured value":
  the strings \<open>true\<close> and \<open>false\<close> become booleans, a string that is a decimal literal
  becomes that number, every other value is left as it is. A string exists when it is
  not empty; \<open>undefined\<close> and \<open>null\<close> do not exist.
\<close>

definition decimal_literal :: "string \<Rightarrow> bool" where
  "decimal_literal s \<longleftrightarrow>
     (let body = (if s \<noteq> [] \<and> hd s = CHR ''-'' then tl s else s);
          rest = dropWhile is_digit body
      in body \<noteq> [] \<and> hd body \<noteq> CHR ''.'' \<and>
         (rest = [] \<or> (hd rest = CHR ''.'' \<and> tl rest \<noteq> [] \<and> list_all is_digit (tl rest))))"

fun serialize_model :: "jsval \<Rightarrow> jsval" where
  "serialize_model (JStr s) =
     (if s = ''true'' then JBool True
      else if s = ''false'' then JBool False
      else if decimal_literal s then JNum (parseFloat s)
      else JStr s)"
| "serialize_model v = v"

fun exists_model :: "jsval \<Rightarrow> bool" where
  "exists_model JUndefined = False"
| "exists_model JNull = False"
| "exists_model (JStr s) = (s \<noteq> [])"
| "exists_model v = True"

text \<open>A page served over https, with no injected defaults and nothing persisted.\<close>

definition plain_page :: config_env where
  "plain_page =
     \<lparr>jw_defaults = JUndefined, persisted = JUndefined,
      serialize = serialize_model, utils_exists = exists_model,
      script_path = ''https://cdn.example/lib/'', load_from = ''https://cdn.example/lib/'',
      protocol = ''https:''\<rparr>"

text \<open>
  The same page with process-wide defaults injected (a volume, the mute flag and one
  translation) and a persisted volume.
\<close>

definition layered_page :: config_env where
  "layered_page =
     plain_page
       \<lparr>jw_defaults := JObj [(''volume'', JNum (Fin 50)), (''mute'', JBool True),
                             (''localization'', JObj [(''play'', JStr ''Jouer'')])],
        persisted := JObj [(''volume'', JStr ''20'')]\<rparr>"

text \<open>
  The spec's words for the merge. A layer that is truthy gives, for a key, the value its
  last binding of the key holds (an object's only one). The value the layers supply for
  a key is that of the explicit options if they have the key, else that of the persisted
  values, else that of the process-wide defaults.
\<close>

definition layer :: "jsval \<Rightarrow> string \<Rightarrow> jsval option" where
  "layer source k = (if truthy source then map_of (rev (own_props source)) k else None)"

definition top_layer_value :: "config_env \<Rightarrow> jsval \<Rightarrow> string \<Rightarrow> jsval option" where
  "top_layer_value E options k =
     (case layer options k of
        Some v \<Rightarrow> Some v
      | None \<Rightarrow>
          (case layer (persisted E) k of
             Some v \<Rightarrow> Some v
           | None \<Rightarrow> layer (jw_defaults E) k))"

text \<open>The localization table the layers supply, deserialized (\<open>undefined\<close> when none does).\<close>

definition top_localization :: "config_env \<Rightarrow> jsval \<Rightarrow> jsval" where
  "top_localization E options =
     (case top_layer_value E options ''localization'' of
        Some v \<Rightarrow> serialize E v
      | None \<Rightarrow> JUndefined)"

text \<open>The keys lines 950-1012 may assign, before the playlist is resolved.\<close>

definition keys_before_playlist :: "string list" where
  "keys_before_playlist =
     [''base'', ''width'', ''height'', ''flashplayer'', ''flashloader'', ''aspectratio'',
      ''skin'', ''skinUrl'', ''skinColorInactive'', ''skinColorActive'', ''skinColorBackground'',
      ''playbackRateControls'', ''playbackRates'', ''defaultPlaybackRate'', ''playbackRate'']"

text \<open>What the layers supply for a key, deserialized (\<open>undefined\<close> when none has it).\<close>

definition supplied :: "config_env \<Rightarrow> jsval \<Rightarrow> string \<Rightarrow> jsval" where
  "supplied E options k =
     (case top_layer_value E options k of Some v \<Rightarrow> serialize E v | None \<Rightarrow> JUndefined)"

text \<open>The keys lines 950-981 may assign, before the playback rates are resolved.\<close>

definition keys_before_rates :: "string list" where
  "keys_before_rates =
     [''base'', ''width'', ''height'', ''flashplayer'', ''flashloader'', ''aspectratio'',
      ''skin'', ''skinUrl'', ''skinColorInactive'', ''skinColorActive'', ''skinColorBackground'']"

text \<open>
  The spec's words for the playback rate controls: a rate is valid when it is a number
  within [0.25, 4.0]; the boolean \<open>true\<close> stands for the fixed list, a list for its
  valid entries when there are any, and nothing else enables the feature.
\<close>

definition valid_rate :: "jsval \<Rightarrow> bool" where
  "valid_rate v = (case v of JNum (Fin x) \<Rightarrow> 1 / 4 \<le> x \<and> x \<le> 4 | _ \<Rightarrow> False)"

definition enabled_rates :: "jsval \<Rightarrow> jsval option" where
  "enabled_rates r =
     (case r of
        JBool b \<Rightarrow> if b then Some default_rates else None
      | JArr xs \<Rightarrow> if filter valid_rate xs = [] then None else Some (JArr (filter valid_rate xs))
      | _ \<Rightarrow> None)"

text \<open>The keys a configuration has after the merge that later lines may assign.\<close>

definition derived_keys :: "string list" where
  "derived_keys =
     [''base'', ''width'', ''height'', ''flashplayer'', ''flashloader'', ''aspectratio'',
      ''skin'', ''skinUrl'', ''skinColorInactive'', ''skinColorActive'', ''skinColorBackground'',
      ''playbackRateControls'', ''playbackRates'', ''defaultPlaybackRate'', ''playbackRate'',
      ''playlist'', ''feedData'', ''qualityLabels'']"

text \<open>
  A page with one element, \<open>player\<close>, and a facade constructed for it with
  \<open>new Api(element)\<close>; nothing is registered.
\<close>

definition demo_world :: world where
  "demo_world = snd (new_Api module_code (page [''player'']) (Element ''player''))"

text \<open>
  The host of the examples. The facade inherits the functions every object has, and its
  accessor \<open>_\<close> returns the function of module \<open>utils/underscore\<close>. The class
  constructor and the two legacy definers throw when they are called with one value; any
  other external function is taken to return and to leave the listeners as they are (no
  example calls one).
\<close>

definition object_functions :: "string list" where
  "object_functions =
     [''constructor'', ''hasOwnProperty'', ''isPrototypeOf'', ''propertyIsEnumerable'',
      ''toLocaleString'', ''toString'', ''valueOf'', ''__defineGetter__'', ''__defineSetter__'',
      ''__lookupGetter__'', ''__lookupSetter__'']"

definition page_host :: host where
  "page_host =
     \<lparr>inherited_function = (\<lambda>k. k \<in> set object_functions \<or> k = ''_''),
      other_call = (\<lambda>k v ls.
        (if k \<in> set [''constructor'', ''__defineGetter__'', ''__defineSetter__'']
         then Some TypeError else None, ls, []))\<rparr>"

text \<open>
  For the statements about \<open>remove\<close>: the listeners its notification reaches, in the
  order of their calls (those bound to \<open>remove\<close>, then those bound to \<open>all\<close>);
  whether the notification lets a fault out (the debug flag is set and one of them
  throws); and the listeners that are called when it does, up to the first that throws.
\<close>

definition throwing :: "string \<times> listener \<Rightarrow> bool" where
  "throwing e = cb_throws (l_callback (snd e))"

definition remove_listeners :: "world \<Rightarrow> ref \<Rightarrow> (string \<times> listener) list" where
  "remove_listeners w a =
     filter (\<lambda>e. fst e = ''remove'') (api_events (apis w a)) @
     filter (\<lambda>e. fst e = ''all'') (api_events (apis w a))"

definition remove_faults :: "world \<Rightarrow> ref \<Rightarrow> bool" where
  "remove_faults w a \<longleftrightarrow> jw_debug w \<and> list_ex throwing (remove_listeners w a)"

definition called_until_fault :: "(string \<times> listener) list \<Rightarrow> (string \<times> listener) list" where
  "called_until_fault es =
     takeWhile (\<lambda>e. \<not> throwing e) es @ take 1 (dropWhile (\<lambda>e. \<not> throwing e) es)"


definition teardown :: "world \<Rightarrow> ref \<Rightarrow> effect list" where
  "teardown w a =
     [ApiOff a, ControllerOff (api_controller (apis w a))] @
     (if c_playerDestroy (controllers w (api_controller (apis w a)))
      then [PlayerDestroy (api_controller (apis w a))] else [])"

text \<open>
  The worlds the code can be in: every registered reference names a constructed facade,
  once; constructed facades have pairwise different uniqueIds, all below the counter;
  and every facade's controller has been constructed.
\<close>

definition wf_world :: "world \<Rightarrow> bool" where
  "wf_world w \<longleftrightarrow>
     distinct (instances w) \<and>
     (\<forall>r \<in> set (instances w). r < next_api w) \<and>
     (\<forall>r < next_api w. uniqueId (apis w r) < instancesCreated w) \<and>
     (\<forall>r < next_api w. \<forall>r' < next_api w. uniqueId (apis w r) = uniqueId (apis w r') \<longrightarrow> r = r') \<and>
     (\<forall>r < next_api w. api_controller (apis w r) < next_controller w)"

section \<open>Properties\<close>

lemma upd_api_proj:
  "apis (upd_api w a f) = (apis w)(a := f (apis w a))"
  "instances (upd_api w a f) = instances w"
  "instancesCreated (upd_api w a f) = instancesCreated w"
  "uniqueIndex (upd_api w a f) = uniqueIndex w"
  "next_api (upd_api w a f) = next_api w"
  "controllers (upd_api w a f) = controllers w"
  "next_controller (upd_api w a f) = next_controller w"
  "document (upd_api w a f) = document w"
  "jw_debug (upd_api w a f) = jw_debug w"
  "trace (upd_api w a f) = trace w"
  by (simp_all add: upd_api_def)

lemma upd_controller_proj:
  "controllers (upd_controller w c f) = (controllers w)(c := f (controllers w c))"
  "instances (upd_controller w c f) = instances w"
  "instancesCreated (upd_controller w c f) = instancesCreated w"
  "uniqueIndex (upd_controller w c f) = uniqueIndex w"
  "next_api (upd_controller w c f) = next_api w"
  "apis (upd_controller w c f) = apis w"
  "next_controller (upd_controller w c f) = next_controller w"
  "document (upd_controller w c f) = document w"
  "jw_debug (upd_controller w c f) = jw_debug w"
  "trace (upd_controller w c f) = trace w"
  by (simp_all add: upd_controller_def)

lemma note_effects_proj:
  "trace (note_effects w es) = trace w @ es"
  "instances (note_effects w es) = instances w"
  "instancesCreated (note_effects w es) = instancesCreated w"
  "uniqueIndex (note_effects w es) = uniqueIndex w"
  "next_api (note_effects w es) = next_api w"
  "apis (note_effects w es) = apis w"
  "controllers (note_effects w es) = controllers w"
  "next_controller (note_effects w es) = next_controller w"
  "document (note_effects w es) = document w"
  "jw_debug (note_effects w es) = jw_debug w"
  by (simp_all add: note_effects_def)

lemmas world_proj = upd_api_proj upd_controller_proj note_effects_proj

lemma Api_on_proj:
  "apis (Api_on w a n cb) =
     (case cb of None \<Rightarrow> apis w
      | Some f \<Rightarrow> (apis w)(a := (apis w a)\<lparr>api_events := api_events (apis w a) @ [(n, Listener f False)]\<rparr>))"
  "instances (Api_on w a n cb) = instances w"
  "instancesCreated (Api_on w a n cb) = instancesCreated w"
  "uniqueIndex (Api_on w a n cb) = uniqueIndex w"
  "next_api (Api_on w a n cb) = next_api w"
  "controllers (Api_on w a n cb) = controllers w"
  "next_controller (Api_on w a n cb) = next_controller w"
  "document (Api_on w a n cb) = document w"
  "jw_debug (Api_on w a n cb) = jw_debug w"
  "trace (Api_on w a n cb) = trace w"
  by (simp_all add: Api_on_def world_proj split: option.splits)

lemma resetPlayer_proj:
  "trace (resetPlayer w a (Some c)) =
     trace w @ [ApiOff a, ControllerOff c] @
     (if c_playerDestroy (controllers w c) then [PlayerDestroy c] else [])"
  "controllers (resetPlayer w a (Some c)) = (controllers w)(c := (controllers w c)\<lparr>c_events := []\<rparr>)"
  "apis (resetPlayer w a co) = (apis w)(a := (apis w a)\<lparr>api_events := []\<rparr>)"
  "instances (resetPlayer w a co) = instances w"
  "instancesCreated (resetPlayer w a co) = instancesCreated w"
  "uniqueIndex (resetPlayer w a co) = uniqueIndex w"
  "next_api (resetPlayer w a co) = next_api w"
  "next_controller (resetPlayer w a co) = next_controller w"
  "document (resetPlayer w a co) = document w"
  "jw_debug (resetPlayer w a co) = jw_debug w"
  by (simp_all add: resetPlayer_def Api_off_def world_proj Let_def split: option.splits)

lemma setupController_proj:
  "fst (setupController E w a) = next_controller w"
  "trace (snd (setupController E w a)) =
     trace w @ [ControllerNew (next_controller w),
                ControllerOn (next_controller w) (event_type E ''JWPLAYER_READY''),
                ControllerOn (next_controller w) ''all'']"
  "controllers (snd (setupController E w a)) =
     (controllers w)(next_controller w :=
        \<lparr>c_events = [(event_type E ''JWPLAYER_READY'', ReadyTick a), (''all'', ForwardAll a)],
         c_playerDestroy = engine_playerDestroy E\<rparr>)"
  "apis (snd (setupController E w a)) = apis w"
  "next_controller (snd (setupController E w a)) = Suc (next_controller w)"
  "instances (snd (setupController E w a)) = instances w"
  "instancesCreated (snd (setupController E w a)) = instancesCreated w"
  "uniqueIndex (snd (setupController E w a)) = uniqueIndex w"
  "next_api (snd (setupController E w a)) = next_api w"
  "document (snd (setupController E w a)) = document w"
  "jw_debug (snd (setupController E w a)) = jw_debug w"
  by (simp_all add: setupController_def world_proj Let_def)

lemma controller_setup_proj:
  "trace (controller_setup w a) = trace w @ [ControllerSetup (api_controller (apis w a))]"
  "apis (controller_setup w a) = apis w"
  "controllers (controller_setup w a) = controllers w"
  "next_controller (controller_setup w a) = next_controller w"
  "instances (controller_setup w a) = instances w"
  "instancesCreated (controller_setup w a) = instancesCreated w"
  "uniqueIndex (controller_setup w a) = uniqueIndex w"
  "next_api (controller_setup w a) = next_api w"
  "document (controller_setup w a) = document w"
  "jw_debug (controller_setup w a) = jw_debug w"
  by (simp_all add: controller_setup_def note_effects_proj)

lemma foreign_call_proj:
  "controllers (snd (foreign_call H w a k v)) = controllers w"
  "next_controller (snd (foreign_call H w a k v)) = next_controller w"
  "instances (snd (foreign_call H w a k v)) = instances w"
  "instancesCreated (snd (foreign_call H w a k v)) = instancesCreated w"
  "uniqueIndex (snd (foreign_call H w a k v)) = uniqueIndex w"
  "next_api (snd (foreign_call H w a k v)) = next_api w"
  "document (snd (foreign_call H w a k v)) = document w"
  "jw_debug (snd (foreign_call H w a k v)) = jw_debug w"
  "trace (snd (foreign_call H w a k v)) =
     trace w @ snd (snd (other_call H k v (api_events (apis w a))))"
  by (simp_all add: foreign_call_def world_proj split: prod.splits)

lemma rebuild_engine_proj:
  "trace (rebuild_engine E w a) =
     trace w @ [Tick a ''setup'', ApiOff a, ControllerOff (api_controller (apis w a))] @
     (if c_playerDestroy (controllers w (api_controller (apis w a)))
      then [PlayerDestroy (api_controller (apis w a))] else []) @
     [ControllerNew (next_controller w),
      ControllerOn (next_controller w) (event_type E ''JWPLAYER_READY''),
      ControllerOn (next_controller w) ''all'']"
  "controllers (rebuild_engine E w a) =
     (controllers w)
       (api_controller (apis w a) := (controllers w (api_controller (apis w a)))\<lparr>c_events := []\<rparr>,
        next_controller w :=
          \<lparr>c_events = [(event_type E ''JWPLAYER_READY'', ReadyTick a), (''all'', ForwardAll a)],
           c_playerDestroy = engine_playerDestroy E\<rparr>)"
  "apis (rebuild_engine E w a) =
     (apis w)(a := (apis w a)\<lparr>qoe := qoe (apis w a) @ [''setup''], api_events := [],
                               api_controller := next_controller w\<rparr>)"
  "next_controller (rebuild_engine E w a) = Suc (next_controller w)"
  "instances (rebuild_engine E w a) = instances w"
  "instancesCreated (rebuild_engine E w a) = instancesCreated w"
  "uniqueIndex (rebuild_engine E w a) = uniqueIndex w"
  "next_api (rebuild_engine E w a) = next_api w"
  "document (rebuild_engine E w a) = document w"
  "jw_debug (rebuild_engine E w a) = jw_debug w"
  by (simp_all add: rebuild_engine_def Let_def setupController_proj resetPlayer_proj world_proj)

lemma invoke_one_proj:
  "instances (invoke_one a ty e w) = instances w"
  "instancesCreated (invoke_one a ty e w) = instancesCreated w"
  "uniqueIndex (invoke_one a ty e w) = uniqueIndex w"
  "next_api (invoke_one a ty e w) = next_api w"
  "controllers (invoke_one a ty e w) = controllers w"
  "next_controller (invoke_one a ty e w) = next_controller w"
  "document (invoke_one a ty e w) = document w"
  "jw_debug (invoke_one a ty e w) = jw_debug w"
  "trace (invoke_one a ty e w) = trace w @ [Invoked (cb_id (l_callback (snd e))) ty]"
  "uniqueId (apis (invoke_one a ty e w) r) = uniqueId (apis w r)"
  "api_id (apis (invoke_one a ty e w) r) = api_id (apis w r)"
  "api_controller (apis (invoke_one a ty e w) r) = api_controller (apis w r)"
  "plugins (apis (invoke_one a ty e w) r) = plugins (apis w r)"
  "r \<noteq> a \<Longrightarrow> apis (invoke_one a ty e w) r = apis w r"
  by (simp_all add: invoke_one_def world_proj)

lemma invoke_one_Nil_events:
  "api_events (apis w a) = [] \<Longrightarrow> api_events (apis (invoke_one a ty e w) a) = []"
  by (simp add: invoke_one_def world_proj)

lemma invoke_all_proj:
  "instances (snd (invoke_all s a ty es w)) = instances w \<and>
   instancesCreated (snd (invoke_all s a ty es w)) = instancesCreated w \<and>
   uniqueIndex (snd (invoke_all s a ty es w)) = uniqueIndex w \<and>
   next_api (snd (invoke_all s a ty es w)) = next_api w \<and>
   controllers (snd (invoke_all s a ty es w)) = controllers w \<and>
   next_controller (snd (invoke_all s a ty es w)) = next_controller w \<and>
   document (snd (invoke_all s a ty es w)) = document w \<and>
   jw_debug (snd (invoke_all s a ty es w)) = jw_debug w \<and>
   uniqueId (apis (snd (invoke_all s a ty es w)) r) = uniqueId (apis w r) \<and>
   api_id (apis (snd (invoke_all s a ty es w)) r) = api_id (apis w r) \<and>
   api_controller (apis (snd (invoke_all s a ty es w)) r) = api_controller (apis w r) \<and>
   plugins (apis (snd (invoke_all s a ty es w)) r) = plugins (apis w r)"
  by (induction s a ty es w rule: invoke_all.induct) (simp_all add: invoke_one_proj)

lemma invoke_all_other:
  "r \<noteq> a \<Longrightarrow> apis (snd (invoke_all s a ty es w)) r = apis w r"
  by (induction s a ty es w rule: invoke_all.induct) (simp_all add: invoke_one_proj)

lemma invoke_all_Nil_events:
  "api_events (apis w a) = [] \<Longrightarrow> api_events (apis (snd (invoke_all s a ty es w)) a) = []"
  by (induction s a ty es w rule: invoke_all.induct) (simp_all add: invoke_one_Nil_events)

lemma invoke_all_ok:
  "s \<or> (\<forall>e \<in> set es. \<not> cb_throws (l_callback (snd e))) \<Longrightarrow>
   fst (invoke_all s a ty es w) = None \<and>
   trace (snd (invoke_all s a ty es w)) =
     trace w @ map (\<lambda>e. Invoked (cb_id (l_callback (snd e))) ty) es"
  by (induction s a ty es w rule: invoke_all.induct) (auto simp: invoke_one_proj)

lemma Events_trigger_proj:
  "instances (snd (Events_trigger s w a n)) = instances w \<and>
   instancesCreated (snd (Events_trigger s w a n)) = instancesCreated w \<and>
   uniqueIndex (snd (Events_trigger s w a n)) = uniqueIndex w \<and>
   next_api (snd (Events_trigger s w a n)) = next_api w \<and>
   controllers (snd (Events_trigger s w a n)) = controllers w \<and>
   next_controller (snd (Events_trigger s w a n)) = next_controller w \<and>
   document (snd (Events_trigger s w a n)) = document w \<and>
   jw_debug (snd (Events_trigger s w a n)) = jw_debug w \<and>
   uniqueId (apis (snd (Events_trigger s w a n)) r) = uniqueId (apis w r) \<and>
   api_id (apis (snd (Events_trigger s w a n)) r) = api_id (apis w r) \<and>
   api_controller (apis (snd (Events_trigger s w a n)) r) = api_controller (apis w r) \<and>
   plugins (apis (snd (Events_trigger s w a n)) r) = plugins (apis w r)"
proof -
  obtain r1 w1 where 1: "invoke_all s a n (filter (\<lambda>e. fst e = n) (api_events (apis w a))) w = (r1, w1)"
    by force
  have w1: "w1 = snd (invoke_all s a n (filter (\<lambda>e. fst e = n) (api_events (apis w a))) w)"
    using 1 by simp
  show ?thesis
    by (cases r1) (simp_all add: Events_trigger_def Let_def 1, simp_all add: w1 invoke_all_proj)
qed

lemma Events_trigger_other:
  "r \<noteq> a \<Longrightarrow> apis (snd (Events_trigger s w a n)) r = apis w r"
proof -
  assume ne: "r \<noteq> a"
  obtain r1 w1 where 1: "invoke_all s a n (filter (\<lambda>e. fst e = n) (api_events (apis w a))) w = (r1, w1)"
    by force
  have w1: "w1 = snd (invoke_all s a n (filter (\<lambda>e. fst e = n) (api_events (apis w a))) w)"
    using 1 by simp
  show ?thesis using ne
    by (cases r1) (simp_all add: Events_trigger_def Let_def 1, simp_all add: w1 invoke_all_other)
qed

lemma Events_trigger_Nil:
  "api_events (apis w a) = [] \<Longrightarrow> Events_trigger s w a n = (None, w)"
  by (simp add: Events_trigger_def)

lemma Events_trigger_ok:
  assumes "s \<or> (\<forall>e \<in> set (api_events (apis w a)). fst e = n \<or> fst e = ''all'' \<longrightarrow>
                  \<not> cb_throws (l_callback (snd e)))"
  shows "fst (Events_trigger s w a n) = None \<and>
         trace (snd (Events_trigger s w a n)) =
           trace w @ map (\<lambda>e. Invoked (cb_id (l_callback (snd e))) n)
             (filter (\<lambda>e. fst e = n) (api_events (apis w a)) @
              filter (\<lambda>e. fst e = ''all'') (api_events (apis w a)))"
proof -
  let ?es = "filter (\<lambda>e. fst e = n) (api_events (apis w a))"
  let ?as = "filter (\<lambda>e. fst e = ''all'') (api_events (apis w a))"
  have h1: "s \<or> (\<forall>e \<in> set ?es. \<not> cb_throws (l_callback (snd e)))"
    using assms by auto
  have h2: "s \<or> (\<forall>e \<in> set ?as. \<not> cb_throws (l_callback (snd e)))"
    using assms by auto
  obtain w1 where 1: "invoke_all s a n ?es w = (None, w1)"
    using invoke_all_ok [OF h1, of a n w] by (cases "invoke_all s a n ?es w") simp
  have t1: "trace w1 = trace w @ map (\<lambda>e. Invoked (cb_id (l_callback (snd e))) n) ?es"
    using invoke_all_ok [OF h1, of a n w] 1 by simp
  show ?thesis
    using invoke_all_ok [OF h2, of a n w1] by (simp add: Events_trigger_def Let_def 1 t1)
qed

lemma Api_trigger_proj:
  "instances (snd (Api_trigger w a n)) = instances w \<and>
   instancesCreated (snd (Api_trigger w a n)) = instancesCreated w \<and>
   uniqueIndex (snd (Api_trigger w a n)) = uniqueIndex w \<and>
   next_api (snd (Api_trigger w a n)) = next_api w \<and>
   controllers (snd (Api_trigger w a n)) = controllers w \<and>
   next_controller (snd (Api_trigger w a n)) = next_controller w \<and>
   document (snd (Api_trigger w a n)) = document w \<and>
   jw_debug (snd (Api_trigger w a n)) = jw_debug w \<and>
   uniqueId (apis (snd (Api_trigger w a n)) r) = uniqueId (apis w r) \<and>
   api_id (apis (snd (Api_trigger w a n)) r) = api_id (apis w r) \<and>
   api_controller (apis (snd (Api_trigger w a n)) r) = api_controller (apis w r) \<and>
   plugins (apis (snd (Api_trigger w a n)) r) = plugins (apis w r)"
  by (simp add: Api_trigger_def Events_trigger_proj)

lemma Api_trigger_other:
  "r \<noteq> a \<Longrightarrow> apis (snd (Api_trigger w a n)) r = apis w r"
  by (simp add: Api_trigger_def Events_trigger_other)

lemma Api_trigger_Nil:
  "api_events (apis w a) = [] \<Longrightarrow> Api_trigger w a n = (None, w)"
  by (simp add: Api_trigger_def Events_trigger_Nil)

lemma Api_trigger_ok:
  assumes "jw_debug w \<longrightarrow> (\<forall>e \<in> set (api_events (apis w a)). fst e = n \<or> fst e = ''all'' \<longrightarrow>
                  \<not> cb_throws (l_callback (snd e)))"
  shows "fst (Api_trigger w a n) = None \<and>
         trace (snd (Api_trigger w a n)) =
           trace w @ map (\<lambda>e. Invoked (cb_id (l_callback (snd e))) n)
             (filter (\<lambda>e. fst e = n) (api_events (apis w a)) @
              filter (\<lambda>e. fst e = ''all'') (api_events (apis w a)))"
proof (cases "jw_debug w")
  case True
  then have "False \<or> (\<forall>e \<in> set (api_events (apis w a)). fst e = n \<or> fst e = ''all'' \<longrightarrow>
                  \<not> cb_throws (l_callback (snd e)))"
    using assms by simp
  from Events_trigger_ok [OF this] True show ?thesis
    by (simp add: Api_trigger_def)
next
  case False
  have "True \<or> (\<forall>e \<in> set (api_events (apis w a)). fst e = n \<or> fst e = ''all'' \<longrightarrow>
                  \<not> cb_throws (l_callback (snd e)))"
    by simp
  from Events_trigger_ok [OF this] False show ?thesis
    by (simp add: Api_trigger_def)
qed





lemma removePlayer_proj:
  "instancesCreated (removePlayer w a) = instancesCreated w"
  "uniqueIndex (removePlayer w a) = uniqueIndex w"
  "next_api (removePlayer w a) = next_api w"
  "apis (removePlayer w a) = apis w"
  "controllers (removePlayer w a) = controllers w"
  "next_controller (removePlayer w a) = next_controller w"
  "document (removePlayer w a) = document w"
  "jw_debug (removePlayer w a) = jw_debug w"
  "trace (removePlayer w a) =
     trace w @ (case last_index (\<lambda>r. uniqueId (apis w r) = uniqueId (apis w a)) (instances w) of
                  None \<Rightarrow> [] | Some i \<Rightarrow> [Splice i])"
  by (simp_all add: removePlayer_def world_proj split: option.splits)


lemma resetPlayer_fields:
  "uniqueId (apis (resetPlayer w a co) r) = uniqueId (apis w r)"
  "api_id (apis (resetPlayer w a co) r) = api_id (apis w r)"
  "api_controller (apis (resetPlayer w a co) r) = api_controller (apis w r)"
  "api_events (apis (resetPlayer w a co) a) = []"
  by (simp_all add: resetPlayer_proj)

lemma Api_remove_ok:
  assumes "Api_trigger (removePlayer w a) a ''remove'' = (None, w2)"
  shows "Api_remove w a = (Inr a, resetPlayer w2 a (Some (api_controller (apis w a))))"
proof -
  have "api_controller (apis w2 a) = api_controller (apis (removePlayer w a) a)"
    using Api_trigger_proj [of "removePlayer w a" a "''remove''" a] assms by simp
  then show ?thesis using assms
    by (simp add: Api_remove_def removePlayer_proj)
qed

lemma called_until_fault_simps:
  "called_until_fault [] = []"
  "called_until_fault (e # es) = (if throwing e then [e] else e # called_until_fault es)"
  by (simp_all add: called_until_fault_def)

lemma called_until_fault_none:
  "\<not> list_ex throwing es \<Longrightarrow> called_until_fault es = es"
  by (induction es) (simp_all add: called_until_fault_simps)

lemma called_until_fault_some:
  "list_ex throwing es \<Longrightarrow>
   called_until_fault es \<noteq> [] \<and> throwing (last (called_until_fault es)) \<and>
   last (called_until_fault es) \<in> set es"
  by (induction es) (auto simp: called_until_fault_simps)

lemma called_until_fault_append:
  "called_until_fault (xs @ ys) =
     (if list_ex throwing xs then called_until_fault xs else xs @ called_until_fault ys)"
  by (induction xs) (simp_all add: called_until_fault_simps)

lemma invoke_all_trace:
  "trace (snd (invoke_all s a ty es w)) =
     trace w @ map (\<lambda>e. Invoked (cb_id (l_callback (snd e))) ty)
                 (if s then es else called_until_fault es)"
proof (induction s a ty es w rule: invoke_all.induct)
  case (1 safe a ty w)
  then show ?case by (simp add: called_until_fault_simps)
next
  case (2 safe a ty e es w)
  show ?case
  proof (cases "cb_throws (l_callback (snd e)) \<and> \<not> safe")
    case True
    then have "throwing e" by (simp add: throwing_def)
    then show ?thesis using True by (simp add: called_until_fault_simps invoke_one_proj)
  next
    case False
    have t: "\<not> safe \<Longrightarrow> \<not> throwing e"
      using False by (simp add: throwing_def)
    show ?thesis
      using 2 [OF False] False t
      by (cases safe) (simp_all add: called_until_fault_simps invoke_one_proj)
  qed
qed

lemma invoke_all_fst:
  "fst (invoke_all s a ty es w) =
     (if s \<or> \<not> list_ex throwing es then None
      else Some (ListenerFault (cb_id (l_callback (snd (last (called_until_fault es)))))))"
proof (induction s a ty es w rule: invoke_all.induct)
  case (1 safe a ty w)
  then show ?case by simp
next
  case (2 safe a ty e es w)
  show ?case
  proof (cases "cb_throws (l_callback (snd e)) \<and> \<not> safe")
    case True
    then have "throwing e" by (simp add: throwing_def)
    then show ?thesis using True by (simp add: called_until_fault_simps)
  next
    case False
    have t: "\<not> safe \<Longrightarrow> \<not> throwing e"
      using False by (simp add: throwing_def)
    have ne: "list_ex throwing es \<Longrightarrow> called_until_fault es \<noteq> []"
      using called_until_fault_some by blast
    show ?thesis
      using 2 [OF False] False t ne
      by (cases safe) (simp_all add: called_until_fault_simps)
  qed
qed



lemma Events_trigger_split:
  "Events_trigger s w a n =
     (if fst (invoke_all s a n (filter (\<lambda>e. fst e = n) (api_events (apis w a))) w) = None
      then invoke_all s a n (filter (\<lambda>e. fst e = ''all'') (api_events (apis w a)))
             (snd (invoke_all s a n (filter (\<lambda>e. fst e = n) (api_events (apis w a))) w))
      else invoke_all s a n (filter (\<lambda>e. fst e = n) (api_events (apis w a))) w)"
proof -
  obtain r1 w1 where 1: "invoke_all s a n (filter (\<lambda>e. fst e = n) (api_events (apis w a))) w = (r1, w1)"
    by force
  show ?thesis
    by (cases r1) (simp_all add: Events_trigger_def Let_def 1)
qed

lemma Events_trigger_trace:
  "trace (snd (Events_trigger s w a n)) =
     trace w @ map (\<lambda>e. Invoked (cb_id (l_callback (snd e))) n)
       (if s then filter (\<lambda>e. fst e = n) (api_events (apis w a)) @
                  filter (\<lambda>e. fst e = ''all'') (api_events (apis w a))
        else called_until_fault
               (filter (\<lambda>e. fst e = n) (api_events (apis w a)) @
                filter (\<lambda>e. fst e = ''all'') (api_events (apis w a))))"
  by (simp add: Events_trigger_split invoke_all_trace invoke_all_fst called_until_fault_append
      called_until_fault_none)

lemma last_called_until_fault_append:
  "list_ex throwing (xs @ ys) \<Longrightarrow>
   last (called_until_fault (xs @ ys)) =
     (if list_ex throwing xs then last (called_until_fault xs) else last (called_until_fault ys))"
  using called_until_fault_some [of ys]
  by (auto simp: called_until_fault_append)

lemma Events_trigger_fst:
  "fst (Events_trigger s w a n) =
     (if s \<or> \<not> list_ex throwing
                 (filter (\<lambda>e. fst e = n) (api_events (apis w a)) @
                  filter (\<lambda>e. fst e = ''all'') (api_events (apis w a)))
      then None
      else Some (ListenerFault (cb_id (l_callback (snd (last (called_until_fault
                 (filter (\<lambda>e. fst e = n) (api_events (apis w a)) @
                  filter (\<lambda>e. fst e = ''all'') (api_events (apis w a))))))))))"
proof (cases "list_ex throwing
                 (filter (\<lambda>e. fst e = n) (api_events (apis w a)) @
                  filter (\<lambda>e. fst e = ''all'') (api_events (apis w a)))")
  case True
  show ?thesis
    using True unfolding last_called_until_fault_append [OF True]
    by (auto simp: Events_trigger_split invoke_all_fst)
next
  case False
  then show ?thesis
    by (simp add: Events_trigger_split invoke_all_fst)
qed


lemma Api_trigger_remove:
  "fst (Api_trigger w a ''remove'') =
     (if remove_faults w a
      then Some (ListenerFault (cb_id (l_callback (snd (last (called_until_fault (remove_listeners w a)))))))
      else None)"
  "trace (snd (Api_trigger w a ''remove'')) =
     trace w @ map (\<lambda>e. Invoked (cb_id (l_callback (snd e))) ''remove'')
                 (if remove_faults w a then called_until_fault (remove_listeners w a)
                  else remove_listeners w a)"
  by (simp_all add: Api_trigger_def Events_trigger_fst Events_trigger_trace remove_faults_def
      remove_listeners_def called_until_fault_none)


lemma removePlayer_listeners:
  "remove_listeners (removePlayer w a) a = remove_listeners w a"
  "remove_faults (removePlayer w a) a = remove_faults w a"
  by (simp_all add: remove_listeners_def remove_faults_def removePlayer_proj)

lemma Api_remove_cases:
  "Api_remove w a =
     (if remove_faults w a
      then (Inl (ListenerFault (cb_id (l_callback (snd (last (called_until_fault (remove_listeners w a))))))),
            snd (Api_trigger (removePlayer w a) a ''remove''))
      else (Inr a, resetPlayer (snd (Api_trigger (removePlayer w a) a ''remove'')) a
                     (Some (api_controller (apis w a)))))"
proof -
  obtain r1 w2 where t: "Api_trigger (removePlayer w a) a ''remove'' = (r1, w2)"
    by force
  have r1: "r1 = (if remove_faults w a
      then Some (ListenerFault (cb_id (l_callback (snd (last (called_until_fault (remove_listeners w a)))))))
      else None)"
    using Api_trigger_remove(1) [of "removePlayer w a" a] t by (simp add: removePlayer_listeners)
  have c: "api_controller (apis w2 a) = api_controller (apis w a)"
    using Api_trigger_proj [of "removePlayer w a" a "''remove''" a] t by (simp add: removePlayer_proj)
  show ?thesis
    by (simp add: Api_remove_def t r1 c)
qed

lemma Api_remove_proj:
  "instances (snd (Api_remove w a)) = instances (removePlayer w a)"
  "next_controller (snd (Api_remove w a)) = next_controller w"
  "next_api (snd (Api_remove w a)) = next_api w"
  "instancesCreated (snd (Api_remove w a)) = instancesCreated w"
  "uniqueIndex (snd (Api_remove w a)) = uniqueIndex w"
  "document (snd (Api_remove w a)) = document w"
  "jw_debug (snd (Api_remove w a)) = jw_debug w"
  "uniqueId (apis (snd (Api_remove w a)) r) = uniqueId (apis w r)"
  "api_id (apis (snd (Api_remove w a)) r) = api_id (apis w r)"
  "api_controller (apis (snd (Api_remove w a)) r) = api_controller (apis w r)"
  "controllers (snd (Api_remove w a)) =
     (if remove_faults w a then controllers w
      else (controllers w)(api_controller (apis w a) :=
             (controllers w (api_controller (apis w a)))\<lparr>c_events := []\<rparr>))"
  "trace (snd (Api_remove w a)) =
     trace (removePlayer w a) @
     map (\<lambda>e. Invoked (cb_id (l_callback (snd e))) ''remove'')
       (if remove_faults w a then called_until_fault (remove_listeners w a)
        else remove_listeners w a) @
     (if remove_faults w a then [] else teardown w a)"
  by (simp_all add: Api_remove_cases resetPlayer_proj resetPlayer_fields removePlayer_proj
      Api_trigger_proj Api_trigger_remove removePlayer_listeners teardown_def)

lemma Api_remove_returns:
  "\<not> remove_faults w a \<Longrightarrow> api_events (apis (snd (Api_remove w a)) a) = []"
  "\<not> remove_faults w a \<Longrightarrow> fst (Api_remove w a) = Inr a"
  by (simp_all add: Api_remove_cases resetPlayer_fields)





lemma sloppy_proj:
  "strict sloppy = False" "event_type sloppy k = k" "engine_playerDestroy sloppy = True"
  by (simp_all add: sloppy_def)

lemma module_code_proj:
  "strict module_code = True" "event_type module_code k = k" "engine_playerDestroy module_code = True"
  by (simp_all add: module_code_def)

lemma demo_world_proj:
  "instances demo_world = []"
  "instancesCreated demo_world = 1"
  "uniqueIndex demo_world = 0"
  "next_api demo_world = 1"
  "next_controller demo_world = 1"
  "document demo_world = [''player'']"
  "jw_debug demo_world = False"
  "apis demo_world 0 = \<lparr>uniqueId = 0, api_id = ''player'', api_element = Element ''player'',
      api_events = [], api_controller = 0, plugins = None, qoe = [''init'']\<rparr>"
  "controllers demo_world 0 =
     \<lparr>c_events = [(''JWPLAYER_READY'', ReadyTick 0), (''all'', ForwardAll 0)], c_playerDestroy = True\<rparr>"
  "trace demo_world = [Tick 0 ''init'', ControllerNew 0, ControllerOn 0 ''JWPLAYER_READY'', ControllerOn 0 ''all'']"
  by (simp_all add: demo_world_def page_def module_code_def
      new_Api_def setupController_def upd_api_def upd_controller_def note_effects_def
      Let_def split: prod.splits)

lemma wf_demo_world: "wf_world demo_world"
  by (simp add: wf_world_def demo_world_proj)

subsection \<open>Claim C7: remove()\<close>




lemma upd_api_twice:
  "upd_api (upd_api w a f) a g = upd_api w a (\<lambda>x. g (f x))"
  by (simp add: upd_api_def)

lemma upd_api_same:
  "upd_api w a (\<lambda>x. x) = w"
  by (simp add: upd_api_def)

lemma Api_on_append:
  "Api_on w a ty val =
     upd_api w a (\<lambda>x. x\<lparr>api_events := api_events x @
        (case val of None \<Rightarrow> [] | Some f \<Rightarrow> [(ty, Listener f False)])\<rparr>)"
  by (cases val) (simp_all add: Api_on_def upd_api_same)

lemma facade_member_Subscription:
  "facade_member E H evt = Subscription ty \<longleftrightarrow> map_of (subscription_methods E) evt = Some ty"
  by (simp add: facade_member_def split: option.splits)

lemma bound_listeners_simps:
  "bound_listeners E [] = []"
  "bound_listeners E ((evt, val) # evs) =
     (case (map_of (subscription_methods E) evt, val) of
        (Some ty, Some f) \<Rightarrow> [(ty, Listener f False)]
      | _ \<Rightarrow> []) @ bound_listeners E evs"
  by (simp_all add: bound_listeners_def split: option.splits)

lemma call_member_binds:
  assumes "binds_only E H [(evt, val)]"
  shows "call_member E H a evt val w =
           (None, upd_api w a (\<lambda>x. x\<lparr>api_events := api_events x @ bound_listeners E [(evt, val)]\<rparr>))"
proof (cases "facade_member E H evt")
  case NoFunction
  then have "map_of (subscription_methods E) evt = None"
    by (simp add: facade_member_def split: option.splits)
  then show ?thesis
    using NoFunction by (simp add: call_member_def bound_listeners_simps upd_api_same)
next
  case (Subscription ty)
  then have "map_of (subscription_methods E) evt = Some ty"
    by (simp add: facade_member_Subscription)
  then show ?thesis
    using Subscription
    by (cases val) (simp_all add: call_member_def bound_listeners_simps Api_on_append upd_api_same)
next
  case SetupMethod
  then show ?thesis using assms by (simp add: binds_only_def)
next
  case RemoveMethod
  then show ?thesis using assms by (simp add: binds_only_def)
next
  case Inert
  then have "map_of (subscription_methods E) evt = None"
    by (simp add: facade_member_def split: option.splits)
  then show ?thesis
    using Inert by (simp add: call_member_def bound_listeners_simps upd_api_same)
next
  case External
  then show ?thesis using assms by (simp add: binds_only_def)
qed

lemma bind_events_binds:
  "binds_only E H evs \<Longrightarrow>
   bind_events E H a evs w =
     (None, upd_api w a (\<lambda>x. x\<lparr>api_events := api_events x @ bound_listeners E evs\<rparr>))"
proof (induction evs arbitrary: w)
  case Nil
  then show ?case by (simp add: bound_listeners_simps upd_api_same)
next
  case (Cons e evs)
  obtain evt val where e: "e = (evt, val)" by (cases e)
  have 1: "binds_only E H [(evt, val)]" and 2: "binds_only E H evs"
    using Cons.prems by (simp_all add: binds_only_def e)
  have s: "bound_listeners E ((evt, val) # evs) = bound_listeners E [(evt, val)] @ bound_listeners E evs"
    by (simp add: bound_listeners_def)
  show ?case
    unfolding e s
    by (simp add: call_member_binds [OF 1] Cons.IH [OF 2] upd_api_twice)
qed

lemma Api_setup_binds:
  assumes "binds_only E H evs"
  shows "Api_setup E H w a (Some evs) =
           (Inr a, controller_setup
              (upd_api (rebuild_engine E w a) a
                 (\<lambda>x. x\<lparr>api_events := api_events x @ bound_listeners E evs\<rparr>)) a)"
  by (simp add: Api_setup_def bind_events_binds [OF assms])

lemma Api_setup_binds_proj:
  assumes "binds_only E H evs"
  shows "fst (Api_setup E H w a (Some evs)) = Inr a"
    and "trace (snd (Api_setup E H w a (Some evs))) =
           trace (rebuild_engine E w a) @ [ControllerSetup (next_controller w)]"
    and "controllers (snd (Api_setup E H w a (Some evs))) = controllers (rebuild_engine E w a)"
    and "api_events (apis (snd (Api_setup E H w a (Some evs))) a) = bound_listeners E evs"
    and "api_controller (apis (snd (Api_setup E H w a (Some evs))) a) = next_controller w"
    and "instances (snd (Api_setup E H w a (Some evs))) = instances w"
    and "next_controller (snd (Api_setup E H w a (Some evs))) = Suc (next_controller w)"
    and "next_api (snd (Api_setup E H w a (Some evs))) = next_api w"
    and "jw_debug (snd (Api_setup E H w a (Some evs))) = jw_debug w"
  by (simp_all add: Api_setup_binds [OF assms] controller_setup_proj upd_api_proj rebuild_engine_proj)

text \<open>
  Whatever a round of the loop calls, it only adds to the trace, it constructs
  controllers at fresh references, and it leaves a detached controller detached.
\<close>

lemma call_member_frame:
  "(\<exists>rest. trace (snd (call_member E H a evt val w)) = trace w @ rest) \<and>
   next_controller w \<le> next_controller (snd (call_member E H a evt val w)) \<and>
   (\<forall>c. c < next_controller w \<longrightarrow> c_events (controllers w c) = [] \<longrightarrow>
      c_events (controllers (snd (call_member E H a evt val w)) c) = [])"
proof (cases "facade_member E H evt")
  case NoFunction
  then show ?thesis by (simp add: call_member_def)
next
  case (Subscription ty)
  then show ?thesis by (simp add: call_member_def Api_on_proj)
next
  case SetupMethod
  then show ?thesis
    by (cases val) (simp_all add: call_member_def rebuild_engine_proj controller_setup_proj)
next
  case RemoveMethod
  have "snd (call_member E H a evt val w) = snd (Api_remove w a)"
    using RemoveMethod by (simp add: call_member_def split: prod.splits sum.splits)
  then show ?thesis
    by (simp add: Api_remove_proj removePlayer_proj)
next
  case Inert
  then show ?thesis by (simp add: call_member_def)
next
  case External
  then show ?thesis by (simp add: call_member_def foreign_call_proj)
qed

lemma bind_events_frame:
  "(\<exists>rest. trace (snd (bind_events E H a evs w)) = trace w @ rest) \<and>
   next_controller w \<le> next_controller (snd (bind_events E H a evs w)) \<and>
   (\<forall>c. c < next_controller w \<longrightarrow> c_events (controllers w c) = [] \<longrightarrow>
      c_events (controllers (snd (bind_events E H a evs w)) c) = [])"
proof (induction evs arbitrary: w)
  case Nil
  then show ?case by simp
next
  case (Cons e evs)
  obtain evt val where e: "e = (evt, val)" by (cases e)
  obtain r w1 where c: "call_member E H a evt val w = (r, w1)" by force
  have w1: "w1 = snd (call_member E H a evt val w)" using c by simp
  note f = call_member_frame [of E H a evt val w, folded w1]
  show ?case
  proof (cases r)
    case (Some err)
    then show ?thesis using f by (simp add: e c)
  next
    case None
    have b: "bind_events E H a (e # evs) w = bind_events E H a evs w1"
      by (simp add: e c None)
    obtain r1 where t1: "trace w1 = trace w @ r1" using f by blast
    obtain r2 where t2: "trace (snd (bind_events E H a evs w1)) = trace w1 @ r2"
      using Cons.IH [of w1] by blast
    have t: "\<exists>rest. trace (snd (bind_events E H a evs w1)) = trace w @ rest"
      using t1 t2 by simp
    have n: "next_controller w \<le> next_controller (snd (bind_events E H a evs w1))"
      using f Cons.IH [of w1] by linarith
    have d: "c_events (controllers (snd (bind_events E H a evs w1)) c) = []"
      if "c < next_controller w" "c_events (controllers w c) = []" for c
    proof -
      have "c < next_controller w1" using f that(1) by linarith
      moreover have "c_events (controllers w1 c) = []" using f that by blast
      ultimately show ?thesis using Cons.IH [of w1] by blast
    qed
    show ?thesis unfolding b using t n d by blast
  qed
qed

lemma Api_setup_frame:
  assumes wired: "api_controller (apis w a) < next_controller w"
  shows "\<exists>rest. trace (snd (Api_setup E H w a options)) = trace (rebuild_engine E w a) @ rest"
    and "c_events (controllers (snd (Api_setup E H w a options)) (api_controller (apis w a))) = []"
proof -
  let ?c = "api_controller (apis w a)"
  let ?w4 = "rebuild_engine E w a"
  have c4: "?c < next_controller ?w4" "c_events (controllers ?w4 ?c) = []"
    using wired by (simp_all add: rebuild_engine_proj)
  have "(\<exists>rest. trace (snd (Api_setup E H w a options)) = trace ?w4 @ rest) \<and>
        c_events (controllers (snd (Api_setup E H w a options)) ?c) = []"
  proof (cases options)
    case None
    then show ?thesis using c4 by (simp add: Api_setup_def)
  next
    case (Some evs)
    obtain r w5 where b: "bind_events E H a evs ?w4 = (r, w5)" by force
    have w5: "w5 = snd (bind_events E H a evs ?w4)" using b by simp
    note f = bind_events_frame [of E H a evs ?w4, folded w5]
    obtain r5 where t5: "trace w5 = trace ?w4 @ r5" using f by blast
    have d5: "c_events (controllers w5 ?c) = []" using f c4 by blast
    show ?thesis
      by (cases r) (simp_all add: Api_setup_def Some b t5 d5 controller_setup_proj)
  qed
  then show "\<exists>rest. trace (snd (Api_setup E H w a options)) = trace ?w4 @ rest"
    and "c_events (controllers (snd (Api_setup E H w a options)) ?c) = []"
    by blast+
qed

lemma facade_member_examples:
  "facade_member module_code page_host ''foo'' = NoFunction"
  "facade_member module_code page_host ''onReady'' = Subscription ''JWPLAYER_READY''"
  "facade_member module_code page_host ''onPause'' = Subscription ''pause''"
  by (simp_all add: facade_member_def subscription_methods_def inert_methods_def
      external_methods_def object_functions_def page_host_def module_code_proj)

lemma binds_only_example:
  "binds_only module_code page_host [(''foo'', f), (''onReady'', g)]"
  "binds_only module_code page_host [(''foo'', f), (''onPause'', g)]"
  by (simp_all add: binds_only_def facade_member_examples)

subsection \<open>Claim C1: the old bridge is detached before the new one is attached\<close>

text \<open>
  C1. When \<open>setup\<close> is called on a facade whose controller \<open>c\<close> was constructed
  before, whatever the options: the effects of the call begin with, in this order, the
  tick, the clearing of the facade's listeners, the removal of every listener of \<open>c\<close>,
  the destruction of \<open>c\<close>'s engine if it can be destroyed, and only then the
  construction of the new controller and the two subscriptions of its bridge. At that
  point \<open>c\<close> has no listener and the new controller has exactly the bridge's two.
  Whatever the loop over \<open>options.events\<close> calls after that, \<open>c\<close> still has no
  listener in the world \<open>setup\<close> leaves, and an event of any type emitted by \<open>c\<close>
  calls nothing and changes nothing. When the events of the options only subscribe, the
  rest of the effects is the hand-over of the options to the new controller, which still
  has exactly the bridge's two listeners.
\<close>

theorem setup_detaches_old_bridge_first:
  assumes wired: "api_controller (apis w a) < next_controller w"
  shows "(\<exists>rest. trace (snd (Api_setup E H w a options)) =
           trace w @ [Tick a ''setup'', ApiOff a, ControllerOff (api_controller (apis w a))] @
           (if c_playerDestroy (controllers w (api_controller (apis w a)))
            then [PlayerDestroy (api_controller (apis w a))] else []) @
           [ControllerNew (next_controller w),
            ControllerOn (next_controller w) (event_type E ''JWPLAYER_READY''),
            ControllerOn (next_controller w) ''all''] @ rest) \<and>
         c_events (controllers (rebuild_engine E w a) (api_controller (apis w a))) = [] \<and>
         c_events (controllers (rebuild_engine E w a) (next_controller w)) =
           [(event_type E ''JWPLAYER_READY'', ReadyTick a), (''all'', ForwardAll a)] \<and>
         c_events (controllers (snd (Api_setup E H w a options)) (api_controller (apis w a))) = [] \<and>
         controller_emit (snd (Api_setup E H w a options)) (api_controller (apis w a)) ty =
           (None, snd (Api_setup E H w a options)) \<and>
         (binds_only E H evs \<longrightarrow>
            trace (snd (Api_setup E H w a (Some evs))) =
              trace (rebuild_engine E w a) @ [ControllerSetup (next_controller w)] \<and>
            c_events (controllers (snd (Api_setup E H w a (Some evs))) (next_controller w)) =
              [(event_type E ''JWPLAYER_READY'', ReadyTick a), (''all'', ForwardAll a)] \<and>
            api_controller (apis (snd (Api_setup E H w a (Some evs))) a) = next_controller w)"
proof -
  let ?c = "api_controller (apis w a)"
  let ?w' = "snd (Api_setup E H w a options)"
  have ne: "?c \<noteq> next_controller w" using wired by simp
  obtain rest where r: "trace ?w' = trace (rebuild_engine E w a) @ rest"
    using Api_setup_frame(1) [OF wired] by blast
  have 1: "\<exists>rest. trace ?w' =
           trace w @ [Tick a ''setup'', ApiOff a, ControllerOff ?c] @
           (if c_playerDestroy (controllers w ?c) then [PlayerDestroy ?c] else []) @
           [ControllerNew (next_controller w),
            ControllerOn (next_controller w) (event_type E ''JWPLAYER_READY''),
            ControllerOn (next_controller w) ''all''] @ rest"
    unfolding r by (simp add: rebuild_engine_proj)
  have 2: "c_events (controllers (rebuild_engine E w a) ?c) = []"
    using ne by (simp add: rebuild_engine_proj)
  have 3: "c_events (controllers (rebuild_engine E w a) (next_controller w)) =
           [(event_type E ''JWPLAYER_READY'', ReadyTick a), (''all'', ForwardAll a)]"
    by (simp add: rebuild_engine_proj)
  have 4: "c_events (controllers ?w' ?c) = []"
    by (rule Api_setup_frame(2) [OF wired])
  have 5: "controller_emit ?w' ?c ty = (None, ?w')"
    by (simp add: controller_emit_def 4)
  have 6: "trace (snd (Api_setup E H w a (Some evs))) =
              trace (rebuild_engine E w a) @ [ControllerSetup (next_controller w)] \<and>
            c_events (controllers (snd (Api_setup E H w a (Some evs))) (next_controller w)) =
              [(event_type E ''JWPLAYER_READY'', ReadyTick a), (''all'', ForwardAll a)] \<and>
            api_controller (apis (snd (Api_setup E H w a (Some evs))) a) = next_controller w"
    if b: "binds_only E H evs"
    by (simp add: Api_setup_binds_proj [OF b] rebuild_engine_proj)
  show ?thesis
    using 1 2 3 4 5 6 by blast
qed

text \<open>
  The theorem at a second \<open>setup\<close> of the demo player, with the events
  \<open>{foo: f6, onReady: f3}\<close>: \<open>foo\<close> names no function and is skipped, the ready
  handler is bound, and the options reach the new controller.
\<close>

theorem setup_detaches_old_bridge_first_witness:
  "trace (snd (Api_setup module_code page_host
                 (snd (Api_setup module_code page_host demo_world 0 (Some []))) 0
                 (Some [(''foo'', Some (Callback 6 False)), (''onReady'', Some (Callback 3 False))]))) =
     trace (snd (Api_setup module_code page_host demo_world 0 (Some []))) @
     [Tick 0 ''setup'', ApiOff 0, ControllerOff 1, PlayerDestroy 1,
      ControllerNew 2, ControllerOn 2 ''JWPLAYER_READY'', ControllerOn 2 ''all'',
      ControllerSetup 2] \<and>
   c_events (controllers (snd (Api_setup module_code page_host
                 (snd (Api_setup module_code page_host demo_world 0 (Some []))) 0
                 (Some [(''foo'', Some (Callback 6 False)), (''onReady'', Some (Callback 3 False))]))) 1) = [] \<and>
   c_events (controllers (snd (Api_setup module_code page_host
                 (snd (Api_setup module_code page_host demo_world 0 (Some []))) 0
                 (Some [(''foo'', Some (Callback 6 False)), (''onReady'', Some (Callback 3 False))]))) 2) =
     [(''JWPLAYER_READY'', ReadyTick 0), (''all'', ForwardAll 0)] \<and>
   controller_emit (snd (Api_setup module_code page_host
                 (snd (Api_setup module_code page_host demo_world 0 (Some []))) 0
                 (Some [(''foo'', Some (Callback 6 False)), (''onReady'', Some (Callback 3 False))]))) 1 ''time'' =
     (None, snd (Api_setup module_code page_host
                 (snd (Api_setup module_code page_host demo_world 0 (Some []))) 0
                 (Some [(''foo'', Some (Callback 6 False)), (''onReady'', Some (Callback 3 False))])))"
proof -
  let ?H = "page_host"
  let ?W = "snd (Api_setup module_code ?H demo_world 0 (Some []))"
  let ?evs = "[(''foo'', Some (Callback 6 False)), (''onReady'', Some (Callback 3 False))]"
  have e: "binds_only module_code ?H []"
    by (simp add: binds_only_def)
  have c: "api_controller (apis ?W 0) = 1"
    by (simp add: Api_setup_binds_proj [OF e] demo_world_proj)
  have n: "next_controller ?W = 2"
    by (simp add: Api_setup_binds_proj [OF e] demo_world_proj)
  have d: "c_playerDestroy (controllers ?W (Suc 0))"
    by (simp add: Api_setup_binds_proj [OF e] rebuild_engine_proj demo_world_proj module_code_proj)
  have b: "binds_only module_code ?H ?evs"
    by (rule binds_only_example)
  have h: "api_controller (apis ?W 0) < next_controller ?W"
    by (simp add: c n)
  show ?thesis
    using setup_detaches_old_bridge_first [OF h, of module_code ?H "Some ?evs" "''time''" ?evs] b
    by (simp add: c n d module_code_proj rebuild_engine_proj)
qed

lemma Api_remove_clears:
  "fst (Api_remove w a) = Inr r \<Longrightarrow> api_events (apis (snd (Api_remove w a)) a) = []"
  by (cases "remove_faults w a") (simp_all add: Api_remove_cases resetPlayer_fields)

subsection \<open>Claim C6: what happens to the facade's listeners\<close>

text \<open>
  C6, as amended. Listeners attached with \<open>on\<close>/\<open>once\<close> do not survive \<open>setup()\<close>:
  its teardown clears the facade's listeners before \<open>options.events\<close> is read, so that
  at line 107 the facade has no listener, whatever was attached before the call, and has
  none either after a call without options. When the events of the options only
  subscribe (each key names a subscription method, an inert method or no function of the
  facade), \<open>setup()\<close> returns the facade and its listeners are then exactly those the
  call bound from \<open>options.events\<close>. The listeners are cleared by \<open>remove()\<close> as
  well: after a \<open>remove()\<close> that returns, the facade has no listener.
\<close>

theorem setup_and_remove_clear_listeners:
  "api_events (apis (rebuild_engine E w a) a) = [] \<and>
   api_events (apis (snd (Api_setup E H w a None)) a) = [] \<and>
   (binds_only E H evs \<longrightarrow>
      fst (Api_setup E H w a (Some evs)) = Inr a \<and>
      api_events (apis (snd (Api_setup E H w a (Some evs))) a) = bound_listeners E evs) \<and>
   (fst (Api_remove w a) = Inr a \<longrightarrow> api_events (apis (snd (Api_remove w a)) a) = [])"
proof -
  have 1: "api_events (apis (rebuild_engine E w a) a) = []"
    by (simp add: rebuild_engine_proj)
  have 2: "api_events (apis (snd (Api_setup E H w a None)) a) = []"
    by (simp add: Api_setup_def rebuild_engine_proj)
  show ?thesis
    using 1 2 Api_setup_binds_proj(1,4) Api_remove_clears by blast
qed

text \<open>
  The theorem at the demo player with a \<open>play\<close> listener attached, for a \<open>setup\<close>
  with the events \<open>{foo: f6, onPause: f8}\<close>.
\<close>

theorem setup_and_remove_clear_listeners_witness:
  "fst (Api_setup module_code page_host (Api_on demo_world 0 ''play'' (Some (Callback 7 False))) 0
      (Some [(''foo'', Some (Callback 6 False)), (''onPause'', Some (Callback 8 False))])) = Inr 0 \<and>
   api_events (apis (snd (Api_setup module_code page_host
      (Api_on demo_world 0 ''play'' (Some (Callback 7 False))) 0
      (Some [(''foo'', Some (Callback 6 False)), (''onPause'', Some (Callback 8 False))]))) 0) =
     [(''pause'', Listener (Callback 8 False) False)] \<and>
   fst (Api_remove (Api_on demo_world 0 ''play'' (Some (Callback 7 False))) 0) = Inr 0 \<and>
   api_events (apis (snd (Api_remove (Api_on demo_world 0 ''play'' (Some (Callback 7 False))) 0)) 0) = []"
proof -
  let ?H = "page_host"
  let ?W = "Api_on demo_world 0 ''play'' (Some (Callback 7 False))"
  let ?evs = "[(''foo'', Some (Callback 6 False)), (''onPause'', Some (Callback 8 False))]"
  have b: "binds_only module_code ?H ?evs"
    by (rule binds_only_example)
  have l: "bound_listeners module_code ?evs = [(''pause'', Listener (Callback 8 False) False)]"
    by (simp add: bound_listeners_def subscription_methods_def)
  have "\<not> remove_faults ?W 0"
    by (simp add: remove_faults_def Api_on_proj demo_world_proj)
  then have r: "fst (Api_remove ?W 0) = Inr 0"
    by (rule Api_remove_returns(2))
  show ?thesis
    using setup_and_remove_clear_listeners [of module_code ?W 0 ?H ?evs] b r
    by (simp add: l)
qed

text \<open>
  C6 as stated fails: a \<open>play\<close> listener attached to the demo player is gone after a
  \<open>setup()\<close> that returns normally.
\<close>

theorem listeners_survive_setup_counterexample:
  "api_events (apis (Api_on demo_world 0 ''play'' (Some (Callback 7 False))) 0) =
     [(''play'', Listener (Callback 7 False) False)] \<and>
   fst (Api_setup module_code page_host
      (Api_on demo_world 0 ''play'' (Some (Callback 7 False))) 0 (Some [])) = Inr 0 \<and>
   api_events (apis (snd (Api_setup module_code page_host
      (Api_on demo_world 0 ''play'' (Some (Callback 7 False))) 0 (Some []))) 0) = []"
proof -
  have e: "binds_only module_code page_host []"
    by (simp add: binds_only_def)
  show ?thesis
    by (simp add: Api_setup_binds_proj [OF e] Api_on_proj demo_world_proj bound_listeners_def)
qed

text \<open>
  The lookup of \<open>selectPlayer\<close>, whatever the registry holds: a string that is not
  empty, or a page element, is answered with the first registered instance of that id
  when there is one, and nothing is created.
\<close>

lemma selectPlayer_lookup:
  assumes "playerById w s = Some r"
  shows "s \<noteq> [] \<Longrightarrow> selectPlayer E w (QStr s) = (Inr (Player r), w)"
    and "selectPlayer E w (QElement (Element s)) = (Inr (Player r), w)"
  using assms by (simp_all add: selectPlayer_def)



subsection \<open>Claim C8: resolving a player by its element id\<close>



subsection \<open>Claim C9: registering an instance\<close>

text \<open>
  C9, at the failing input: the first \<open>selectPlayer('player')\<close> on a page with that
  element. The constructor gives the new facade the uniqueId 0 behind a getter;
  \<open>_addPlayer\<close> then assigns \<open>_uniqueIndex\<close>, which is 1, to \<open>uniqueId\<close>. As module
  (strict-mode) code the assignment throws and the instance is never appended to the
  registry; were the assignment ignored (sloppy mode), the instance would be appended
  with its uniqueId still 0, not the registry's 1. In neither reading does registering
  assign the id.
\<close>

theorem addPlayer_cannot_assign_uniqueId:
  "fst (selectPlayer module_code (page [''player'']) (QStr ''player'')) = Inl TypeError \<and>
   instances (snd (selectPlayer module_code (page [''player'']) (QStr ''player''))) = [] \<and>
   uniqueIndex (snd (selectPlayer module_code (page [''player'']) (QStr ''player''))) = 1 \<and>
   fst (selectPlayer sloppy (page [''player'']) (QStr ''player'')) = Inr (Player 0) \<and>
   instances (snd (selectPlayer sloppy (page [''player'']) (QStr ''player''))) = [0] \<and>
   uniqueId (apis (snd (selectPlayer sloppy (page [''player'']) (QStr ''player''))) 0) = 0 \<and>
   uniqueIndex (snd (selectPlayer sloppy (page [''player'']) (QStr ''player''))) = 1"
  by (simp add: selectPlayer_def playerById_def getElementById_def page_def module_code_def sloppy_def
      new_Api_def setupController_def addPlayer_def upd_api_def upd_controller_def note_effects_def
      Let_def split: prod.splits)

subsection \<open>Claim C10: addPlugin\<close>

text \<open>
  C10, at the failing inputs: every plugin whose \<open>resize\<close> member is truthy. The call
  records the plugin under its name and subscribes \<open>addToPlayer\<close> (when there is one) to
  \<open>ready\<close>, then throws a TypeError while it evaluates the argument of the second
  \<open>on\<close>; nothing is subscribed to \<open>resize\<close>.
\<close>

theorem addPlugin_with_resize_throws:
  "fst (Api_addPlugin w a name (p\<lparr>resize := True\<rparr>)) = Inl TypeError \<and>
   Api_getPlugin (snd (Api_addPlugin w a name (p\<lparr>resize := True\<rparr>))) a name = Some (p\<lparr>resize := True\<rparr>) \<and>
   api_events (apis (snd (Api_addPlugin w a name (p\<lparr>resize := True\<rparr>))) a) =
     api_events (apis w a) @
     (case addToPlayer p of None \<Rightarrow> [] | Some f \<Rightarrow> [(''ready'', Listener f False)])"
  by (simp add: Api_addPlugin_def Api_getPlugin_def Api_on_proj upd_api_proj update_conv'
      split: option.splits)

lemma get_put: "get (put k v c) k' = (if k' = k then v else get c k')"
  by (simp add: get_def put_def update_conv')

lemma map_of_put: "map_of (put k v c) k' = (if k' = k then Some v else map_of c k')"
  by (simp add: put_def update_conv')

lemma get_delete: "get (AList.delete k c) k' = (if k' = k then JUndefined else get c k')"
  by (simp add: get_def delete_conv')

lemma map_of_delete: "map_of (AList.delete k c) k' = (if k' = k then None else map_of c k')"
  by (simp add: delete_conv')

lemma distinct_put: "distinct (map fst c) \<Longrightarrow> distinct (map fst (put k v c))"
  by (simp add: put_def distinct_update)

lemma put_all_distinct:
  "distinct (map fst acc) \<Longrightarrow>
   distinct (map fst (foldl (\<lambda>ob kv. put (fst kv) (snd kv) ob) acc kvs))"
  by (induction kvs arbitrary: acc) (simp_all add: distinct_put)

lemma put_all_lookup:
  "map_of (foldl (\<lambda>ob kv. put (fst kv) (snd kv) ob) acc kvs) k =
     (case map_of (rev kvs) k of Some v \<Rightarrow> Some v | None \<Rightarrow> map_of acc k)"
proof (induction kvs arbitrary: acc)
  case Nil
  then show ?case by simp
next
  case (Cons kv kvs)
  show ?case
    by (simp add: Cons.IH map_of_put map_add_def split: option.splits)
qed

lemma extend_obj_distinct:
  "distinct (map fst obj) \<Longrightarrow> distinct (map fst (extend_obj obj sources))"
  unfolding extend_obj_def
  by (induction sources arbitrary: obj) (simp_all add: put_all_distinct)

lemma extend_obj_Nil: "extend_obj obj [] = obj"
  by (simp add: extend_obj_def)

lemma extend_obj_Cons:
  "extend_obj obj (source # sources) =
     extend_obj (if truthy source
                 then foldl (\<lambda>ob kv. put (fst kv) (snd kv) ob) obj (own_props source)
                 else obj) sources"
  by (simp add: extend_obj_def)

lemma extend_obj_lookup:
  "map_of (extend_obj obj (source # sources)) k =
     (case map_of (extend_obj [] sources) k of
        Some v \<Rightarrow> Some v
      | None \<Rightarrow> (case layer source k of Some v \<Rightarrow> Some v | None \<Rightarrow> map_of obj k))"
proof (induction sources arbitrary: obj source)
  case Nil
  then show ?case
    by (simp add: extend_obj_Cons extend_obj_Nil layer_def put_all_lookup split: option.splits)
next
  case (Cons s ss)
  have 1: "map_of (extend_obj obj (source # s # ss)) k =
        (case map_of (extend_obj [] ss) k of
           Some v \<Rightarrow> Some v
         | None \<Rightarrow> (case layer s k of Some v \<Rightarrow> Some v
                      | None \<Rightarrow> map_of (if truthy source
                 then foldl (\<lambda>ob kv. put (fst kv) (snd kv) ob) obj (own_props source)
                 else obj) k))"
    by (subst extend_obj_Cons) (rule Cons.IH)
  have 2: "map_of (extend_obj [] (s # ss)) k =
        (case map_of (extend_obj [] ss) k of
           Some v \<Rightarrow> Some v
         | None \<Rightarrow> (case layer s k of Some v \<Rightarrow> Some v | None \<Rightarrow> map_of [] k))"
    by (rule Cons.IH)
  show ?case
    unfolding 1 2
    by (simp add: layer_def put_all_lookup split: option.splits)
qed

lemma extend_obj_three:
  "map_of (extend_obj [] [a, b, c]) k =
     (case layer c k of
        Some v \<Rightarrow> Some v
      | None \<Rightarrow> (case layer b k of Some v \<Rightarrow> Some v | None \<Rightarrow> layer a k))"
  by (simp add: extend_obj_lookup extend_obj_Nil split: option.splits)

lemma extend_obj_two:
  "map_of (extend_obj [] [a, b]) k =
     (case layer b k of Some v \<Rightarrow> Some v | None \<Rightarrow> layer a k)"
  by (simp add: extend_obj_lookup extend_obj_Nil split: option.splits)

lemma map_of_rev_distinct:
  "distinct (map fst kvs) \<Longrightarrow> map_of (rev kvs) k = map_of kvs k"
proof (induction kvs)
  case Nil
  then show ?case by simp
next
  case (Cons kv kvs)
  then have IH: "map_of (rev kvs) k = map_of kvs k" by simp
  show ?case
  proof (cases "k = fst kv")
    case True
    then have "k \<notin> fst ` set kvs" using Cons.prems by simp
    then have "map_of kvs k = None" by (simp add: map_of_eq_None_iff)
    then show ?thesis using True IH by (simp add: map_add_def)
  next
    case False
    then show ?thesis using IH by (simp add: map_add_def split: option.splits)
  qed
qed

lemma layer_obj: "distinct (map fst kvs) \<Longrightarrow> layer (JObj kvs) k = map_of kvs k"
  by (simp add: layer_def map_of_rev_distinct)

lemma deserialize_lookup:
  "map_of (deserialize E obj) k = map_option (serialize E) (map_of obj k)"
  unfolding deserialize_def by (induction obj) auto

lemma deserialize_keys: "map fst (deserialize E obj) = map fst obj"
  by (simp add: deserialize_def)

lemma Defaults_distinct: "distinct (map fst Defaults)"
  by (simp add: Defaults_def)

lemma localization_defaults_distinct: "distinct (map fst localization_defaults)"
  by (simp add: localization_defaults_def)

lemma all_options_lookup:
  "map_of (deserialize E (extend_obj [] [jw_defaults E, persisted E, options])) k =
     map_option (serialize E) (top_layer_value E options k)"
  by (simp add: deserialize_lookup extend_obj_three top_layer_value_def split: option.splits)

lemma all_options_distinct:
  "distinct (map fst (deserialize E (extend_obj [] [jw_defaults E, persisted E, options])))"
  by (simp add: deserialize_keys extend_obj_distinct)

lemma map_of_merge_layers:
  "map_of (merge_layers E options) k =
     (if k = ''localization''
      then Some (JObj (extend_obj [] [JObj localization_defaults, top_localization E options]))
      else (case top_layer_value E options k of
              Some v \<Rightarrow> Some (serialize E v)
            | None \<Rightarrow> map_of Defaults k))"
proof -
  let ?A1 = "deserialize E (extend_obj [] [jw_defaults E, persisted E, options])"
  let ?L = "JObj (extend_obj [] [JObj localization_defaults, get ?A1 ''localization''])"
  let ?A2 = "put ''localization'' ?L ?A1"
  have d2: "distinct (map fst ?A2)"
    by (rule distinct_put) (rule all_options_distinct)
  have loc: "get ?A1 ''localization'' = top_localization E options"
    by (simp add: get_def all_options_lookup top_localization_def split: option.splits)
  have m: "merge_layers E options = extend_obj [] [JObj Defaults, JObj ?A2]"
    by (simp add: merge_layers_def Let_def)
  have "map_of (merge_layers E options) k =
          (case map_of ?A2 k of Some v \<Rightarrow> Some v | None \<Rightarrow> map_of Defaults k)"
    unfolding m by (simp add: extend_obj_two layer_obj [OF d2] layer_obj [OF Defaults_distinct]
        cong: option.case_cong)
  then show ?thesis
    by (simp add: map_of_put all_options_lookup loc split: option.splits)
qed

lemma get_merge_layers:
  "get (merge_layers E options) k =
     (if k = ''localization''
      then JObj (extend_obj [] [JObj localization_defaults, top_localization E options])
      else (case top_layer_value E options k of
              Some v \<Rightarrow> serialize E v
            | None \<Rightarrow> get Defaults k))"
  by (simp add: get_def map_of_merge_layers split: option.splits)

lemma bindE_simps [simp]:
  "bindE (Inr x) f = f x"
  "bindE (Inl e) f = Inl e"
  by (simp_all add: bindE_def)

lemma bindE_Inr:
  "bindE r f = Inr y \<Longrightarrow> \<exists>x. r = Inr x \<and> f x = Inr y"
  by (cases r) simp_all

lemma resolve_base_frame:
  "resolve_base E c = Inr c' \<Longrightarrow> k \<noteq> ''base'' \<Longrightarrow> map_of c' k = map_of c k"
  by (auto simp: resolve_base_def Let_def map_of_put split: jsval.splits if_splits)

lemma normalize_sizes_frame:
  "normalize_sizes c = Inr c' \<Longrightarrow> k \<noteq> ''width'' \<Longrightarrow> k \<noteq> ''height'' \<Longrightarrow>
   map_of c' k = map_of c k"
  by (auto simp: normalize_sizes_def map_of_put dest!: bindE_Inr)

lemma flash_assets_frame:
  "flash_assets E c = Inr c' \<Longrightarrow> k \<noteq> ''flashplayer'' \<Longrightarrow> k \<noteq> ''flashloader'' \<Longrightarrow>
   map_of c' k = map_of c k"
  by (auto simp: flash_assets_def Let_def map_of_put dest!: bindE_Inr split: if_splits)

lemma aspect_ratio_frame:
  "aspect_ratio E c = Inr c' \<Longrightarrow> k \<noteq> ''aspectratio'' \<Longrightarrow> map_of c' k = map_of c k"
  by (auto simp: aspect_ratio_def map_of_put dest!: bindE_Inr)

lemma unpack_skin_frame:
  "k \<notin> set [''skin'', ''skinUrl'', ''skinColorInactive'', ''skinColorActive'', ''skinColorBackground''] \<Longrightarrow>
   map_of (unpack_skin c) k = map_of c k"
  by (simp add: unpack_skin_def Let_def map_of_put)

lemma strip_xml_frame:
  "k \<noteq> ''skin'' \<Longrightarrow> map_of (strip_xml c) k = map_of c k"
  by (simp add: strip_xml_def map_of_put split: jsval.split option.split)

lemma resolve_skin_frame:
  "k \<notin> set [''skin'', ''skinUrl'', ''skinColorInactive'', ''skinColorActive'', ''skinColorBackground''] \<Longrightarrow>
   map_of (resolve_skin c) k = map_of c k"
  by (simp add: resolve_skin_def strip_xml_frame unpack_skin_frame)

lemma rate_controls_frame:
  "k \<noteq> ''playbackRates'' \<Longrightarrow> k \<noteq> ''playbackRateControls'' \<Longrightarrow>
   map_of (rate_controls c) k = map_of c k"
  by (simp add: rate_controls_def Let_def map_of_put)

lemma default_rate_frame:
  "k \<noteq> ''playbackRates'' \<Longrightarrow> k \<noteq> ''defaultPlaybackRate'' \<Longrightarrow> k \<noteq> ''playbackRate'' \<Longrightarrow>
   map_of (default_rate c) k = map_of c k"
  by (simp add: default_rate_def Let_def map_of_put)

lemma drop_unset_aspect_frame:
  "k \<noteq> ''aspectratio'' \<Longrightarrow> map_of (drop_unset_aspect c) k = map_of c k"
  by (simp add: drop_unset_aspect_def map_of_delete)

lemma resolve_playlist_frame:
  "k \<noteq> ''playlist'' \<Longrightarrow> k \<noteq> ''feedData'' \<Longrightarrow> map_of (resolve_playlist c) k = map_of c k"
  by (simp add: resolve_playlist_def Let_def map_of_put)

lemma quality_labels_frame:
  "k \<noteq> ''qualityLabels'' \<Longrightarrow> map_of (quality_labels c) k = map_of c k"
  by (simp add: quality_labels_def map_of_put)

lemma createConfig_steps:
  assumes "createConfig E options = Inr c"
  obtains c1 c2 c3 c4 where
    "resolve_base E (merge_layers E options) = Inr c1"
    "normalize_sizes c1 = Inr c2"
    "flash_assets E c2 = Inr c3"
    "aspect_ratio E c3 = Inr c4"
    "c = quality_labels (resolve_playlist (drop_unset_aspect
           (default_rate (rate_controls (resolve_skin c4)))))"
  using assms unfolding createConfig_def
  by (auto dest!: bindE_Inr)

lemma get_eq_map_of: "map_of c k = map_of c' k \<Longrightarrow> get c k = get c' k"
  by (simp add: get_def)

lemma createConfig_frame:
  assumes ok: "createConfig E options = Inr c" and k: "k \<notin> set derived_keys"
  shows "map_of c k = map_of (merge_layers E options) k"
proof -
  from ok obtain c1 c2 c3 c4 where
    1: "resolve_base E (merge_layers E options) = Inr c1" and
    2: "normalize_sizes c1 = Inr c2" and
    3: "flash_assets E c2 = Inr c3" and
    4: "aspect_ratio E c3 = Inr c4" and
    5: "c = quality_labels (resolve_playlist (drop_unset_aspect
           (default_rate (rate_controls (resolve_skin c4)))))"
    by (rule createConfig_steps)
  have "map_of c k = map_of c4 k"
    using k unfolding 5
    by (simp add: derived_keys_def quality_labels_frame resolve_playlist_frame
        drop_unset_aspect_frame default_rate_frame rate_controls_frame resolve_skin_frame)
  also have "\<dots> = map_of c3 k"
    using k by (intro aspect_ratio_frame [OF 4]) (simp add: derived_keys_def)
  also have "\<dots> = map_of c2 k"
    using k by (intro flash_assets_frame [OF 3]) (simp_all add: derived_keys_def)
  also have "\<dots> = map_of c1 k"
    using k by (intro normalize_sizes_frame [OF 2]) (simp_all add: derived_keys_def)
  also have "\<dots> = map_of (merge_layers E options) k"
    using k by (intro resolve_base_frame [OF 1]) (simp add: derived_keys_def)
  finally show ?thesis .
qed

lemma get_frame: "map_of c' k = map_of c k \<Longrightarrow> get c' k = get c k"
  by (simp add: get_def)

lemma truthy_dot: "\<not> truthy v \<Longrightarrow> \<not> strict_eq v (JStr ''.'')"
  by (cases v) simp_all

lemma resolve_base_default:
  "\<not> truthy (get c ''base'') \<Longrightarrow>
   resolve_base E c = Inr (put ''base'' (JStr (force_trailing_slash (load_from E))) c)"
  by (simp add: resolve_base_def truthy_dot)

lemma normalize_sizes_ok:
  "normalizeSize (get c ''width'') = Inr w \<Longrightarrow> normalizeSize (get c ''height'') = Inr h \<Longrightarrow>
   normalize_sizes c = Inr (put ''height'' h (put ''width'' w c))"
  by (simp add: normalize_sizes_def get_put)

lemma normalize_sizes_Inr:
  "normalize_sizes c = Inr c' \<Longrightarrow>
   \<exists>w h. normalizeSize (get c ''width'') = Inr w \<and> normalizeSize (get c ''height'') = Inr h \<and>
         c' = put ''height'' h (put ''width'' w c)"
  by (auto simp: normalize_sizes_def get_put dest!: bindE_Inr)

lemma flash_assets_ok:
  "protocol E \<noteq> ''http:'' \<Longrightarrow> \<not> isl (flash_assets E c)"
  by (simp add: flash_assets_def Let_def)

lemma aspect_ratio_ok:
  "evaluateAspectRatio E (get c ''aspectratio'') (get c ''width'') = Inr ar \<Longrightarrow>
   aspect_ratio E c = Inr (put ''aspectratio'' ar c)"
  by (simp add: aspect_ratio_def)

lemma aspect_ratio_Inr:
  "aspect_ratio E c = Inr c' \<Longrightarrow>
   \<exists>ar. evaluateAspectRatio E (get c ''aspectratio'') (get c ''width'') = Inr ar \<and>
        c' = put ''aspectratio'' ar c"
  by (auto simp: aspect_ratio_def dest!: bindE_Inr)

lemma createConfig_succeeds:
  assumes b: "\<not> truthy (get (merge_layers E options) ''base'')"
    and p: "protocol E \<noteq> ''http:''"
    and w: "normalizeSize (get (merge_layers E options) ''width'') = Inr w"
    and h: "normalizeSize (get (merge_layers E options) ''height'') = Inr h"
    and a: "evaluateAspectRatio E (get (merge_layers E options) ''aspectratio'') w = Inr ar"
  shows "\<not> isl (createConfig E options)"
proof -
  let ?m = "merge_layers E options"
  let ?c1 = "put ''base'' (JStr (force_trailing_slash (load_from E))) ?m"
  let ?c2 = "put ''height'' h (put ''width'' w ?c1)"
  have 1: "resolve_base E ?m = Inr ?c1"
    by (rule resolve_base_default [OF b])
  have 2: "normalize_sizes ?c1 = Inr ?c2"
    by (rule normalize_sizes_ok) (simp_all add: get_put w h)
  obtain c3 where 3: "flash_assets E ?c2 = Inr c3"
    using flash_assets_ok [OF p, of ?c2] by (cases "flash_assets E ?c2") simp_all
  have g3: "get c3 ''aspectratio'' = get ?m ''aspectratio''" "get c3 ''width'' = w"
    by (simp_all add: get_frame [OF flash_assets_frame [OF 3]] get_put)
  have 4: "aspect_ratio E c3 = Inr (put ''aspectratio'' ar c3)"
    by (rule aspect_ratio_ok) (simp add: g3 a)
  show ?thesis
    by (simp add: createConfig_def 1 2 3 4)
qed

lemma drop_unset_aspect_field:
  "map_of (drop_unset_aspect c) ''aspectratio'' =
     (if truthy (get c ''aspectratio'') then map_of c ''aspectratio'' else None)"
  by (simp add: drop_unset_aspect_def map_of_delete)

lemma createConfig_aspectratio:
  assumes ok: "createConfig E options = Inr c"
  shows "\<exists>w ar. normalizeSize (get (merge_layers E options) ''width'') = Inr w \<and>
           evaluateAspectRatio E (get (merge_layers E options) ''aspectratio'') w = Inr ar \<and>
           map_of c ''aspectratio'' = (if truthy ar then Some ar else None)"
proof -
  let ?m = "merge_layers E options"
  from ok obtain c1 c2 c3 c4 where
    1: "resolve_base E ?m = Inr c1" and
    2: "normalize_sizes c1 = Inr c2" and
    3: "flash_assets E c2 = Inr c3" and
    4: "aspect_ratio E c3 = Inr c4" and
    5: "c = quality_labels (resolve_playlist (drop_unset_aspect
           (default_rate (rate_controls (resolve_skin c4)))))"
    by (rule createConfig_steps)
  from normalize_sizes_Inr [OF 2] obtain w h where
    w: "normalizeSize (get c1 ''width'') = Inr w" and
    c2: "c2 = put ''height'' h (put ''width'' w c1)"
    by blast
  have w1: "get c1 ''width'' = get ?m ''width''"
    by (rule get_frame [OF resolve_base_frame [OF 1]]) simp
  have a1: "get c1 ''aspectratio'' = get ?m ''aspectratio''"
    by (rule get_frame [OF resolve_base_frame [OF 1]]) simp
  have g3: "get c3 ''aspectratio'' = get ?m ''aspectratio''" "get c3 ''width'' = w"
    by (simp_all add: get_frame [OF flash_assets_frame [OF 3]] c2 get_put a1)
  from aspect_ratio_Inr [OF 4] obtain ar where
    ar: "evaluateAspectRatio E (get c3 ''aspectratio'') (get c3 ''width'') = Inr ar" and
    c4: "c4 = put ''aspectratio'' ar c3"
    by blast
  let ?c7 = "default_rate (rate_controls (resolve_skin c4))"
  have m7: "map_of ?c7 ''aspectratio'' = Some ar"
    by (simp add: default_rate_frame rate_controls_frame resolve_skin_frame c4 map_of_put)
  then have g7: "get ?c7 ''aspectratio'' = ar"
    by (simp add: get_def)
  have "map_of c ''aspectratio'' = (if truthy ar then Some ar else None)"
    unfolding 5
    by (simp add: quality_labels_frame resolve_playlist_frame drop_unset_aspect_field m7 g7)
  then show ?thesis
    using w ar by (auto simp: w1 g3)
qed

lemma plain_page_proj:
  "jw_defaults plain_page = JUndefined"
  "persisted plain_page = JUndefined"
  "serialize plain_page = serialize_model"
  "utils_exists plain_page = exists_model"
  "script_path plain_page = ''https://cdn.example/lib/''"
  "load_from plain_page = ''https://cdn.example/lib/''"
  "protocol plain_page = ''https:''"
  by (simp_all add: plain_page_def)

lemma plain_page_top_layer:
  "top_layer_value plain_page (JObj kvs) k = map_of (rev kvs) k"
  by (simp add: top_layer_value_def layer_def plain_page_proj split: option.splits)

lemma Defaults_get:
  "get Defaults ''base'' = JUndefined"
  "get Defaults ''width'' = JNum (Fin 480)"
  "get Defaults ''height'' = JNum (Fin 270)"
  "get Defaults ''aspectratio'' = JUndefined"
  "get Defaults ''playlist'' = JUndefined"
  "get Defaults ''playbackRateControls'' = JBool False"
  "get Defaults ''playbackRates'' = JUndefined"
  "get Defaults ''defaultPlaybackRate'' = JNum (Fin 1)"
  by (simp_all add: get_def Defaults_def)

lemma not_isl_projr: "\<not> isl r \<Longrightarrow> r = Inr (projr r)"
  by (cases r) simp_all

lemma aspect_examples:
  "evaluateAspectRatio plain_page (JStr ''a:b'') (JStr ''50%'') = Inr (JStr ''NaN%'')"
  "serialize_model (JStr ''50%'') = JStr ''50%''"
  "serialize_model (JStr ''a:b'') = JStr ''a:b''"
  by code_simp+

subsection \<open>Claim C3: the aspect ratio\<close>

text \<open>
  C3, at the failing input: the options \<open>{width: "50%", aspectratio: "a:b"}\<close> on a page
  without injected defaults. The width is a percentage string and the ratio has the form
  "W:H", but neither part is a number: \<open>parseFloat\<close> gives \<open>NaN\<close> for both, \<open>NaN <= 0\<close>
  is false, so the guard against zero and negative parts lets them through, and the
  evaluation returns the string \<open>NaN%\<close>, which is truthy and stays in the configuration.
\<close>

theorem aspectratio_of_non_numeric_parts:
  "evaluateAspectRatio plain_page (JStr ''a:b'') (JStr ''50%'') = Inr (JStr ''NaN%'') \<and>
   \<not> isl (createConfig plain_page (JObj [(''width'', JStr ''50%''), (''aspectratio'', JStr ''a:b'')])) \<and>
   map_of (projr (createConfig plain_page
       (JObj [(''width'', JStr ''50%''), (''aspectratio'', JStr ''a:b'')]))) ''aspectratio'' =
     Some (JStr ''NaN%'')"
proof -
  let ?o = "JObj [(''width'', JStr ''50%''), (''aspectratio'', JStr ''a:b'')]"
  let ?m = "merge_layers plain_page ?o"
  have g: "get ?m ''base'' = JUndefined" "get ?m ''width'' = JStr ''50%''"
    "get ?m ''height'' = JNum (Fin 270)" "get ?m ''aspectratio'' = JStr ''a:b''"
    by (simp_all add: get_merge_layers plain_page_top_layer plain_page_proj Defaults_get
        aspect_examples del: serialize_model.simps)
  have ok: "\<not> isl (createConfig plain_page ?o)"
    by (rule createConfig_succeeds [where w = "JStr ''50%''" and h = "JNum (Fin 270)"
          and ar = "JStr ''NaN%''"])
       (simp_all add: g plain_page_proj aspect_examples)
  from createConfig_aspectratio [OF not_isl_projr [OF ok]] obtain w ar where
    w: "normalizeSize (get ?m ''width'') = Inr w" and
    ar: "evaluateAspectRatio plain_page (get ?m ''aspectratio'') w = Inr ar" and
    f: "map_of (projr (createConfig plain_page ?o)) ''aspectratio'' =
          (if truthy ar then Some ar else None)"
    by blast
  from w have "w = JStr ''50%''" by (simp add: g)
  with ar have "ar = JStr ''NaN%''" by (simp add: g aspect_examples)
  with f ok show ?thesis by (simp add: aspect_examples)
qed

lemma createConfig_before_playlist:
  assumes ok: "createConfig E options = Inr c"
  shows "\<exists>c9. c = quality_labels (resolve_playlist c9) \<and>
    (\<forall>k. k \<notin> set keys_before_playlist \<longrightarrow> map_of c9 k = map_of (merge_layers E options) k)"
proof -
  from ok obtain c1 c2 c3 c4 where
    1: "resolve_base E (merge_layers E options) = Inr c1" and
    2: "normalize_sizes c1 = Inr c2" and
    3: "flash_assets E c2 = Inr c3" and
    4: "aspect_ratio E c3 = Inr c4" and
    5: "c = quality_labels (resolve_playlist (drop_unset_aspect
           (default_rate (rate_controls (resolve_skin c4)))))"
    by (rule createConfig_steps)
  let ?c9 = "drop_unset_aspect (default_rate (rate_controls (resolve_skin c4)))"
  have "map_of ?c9 k = map_of (merge_layers E options) k" if k: "k \<notin> set keys_before_playlist" for k
  proof -
    have "map_of ?c9 k = map_of c4 k"
      using k
      by (simp add: keys_before_playlist_def drop_unset_aspect_frame default_rate_frame
          rate_controls_frame resolve_skin_frame)
    also have "\<dots> = map_of c3 k"
      using k by (intro aspect_ratio_frame [OF 4]) (simp add: keys_before_playlist_def)
    also have "\<dots> = map_of c2 k"
      using k by (intro flash_assets_frame [OF 3]) (simp_all add: keys_before_playlist_def)
    also have "\<dots> = map_of c1 k"
      using k by (intro normalize_sizes_frame [OF 2]) (simp_all add: keys_before_playlist_def)
    also have "\<dots> = map_of (merge_layers E options) k"
      using k by (intro resolve_base_frame [OF 1]) (simp add: keys_before_playlist_def)
    finally show ?thesis .
  qed
  with 5 show ?thesis by blast
qed

lemma pick_fold_cong:
  "(\<And>k. k \<in> set keys \<Longrightarrow> map_of c k = map_of c' k) \<Longrightarrow>
   foldl (\<lambda>copy key. case map_of c key of None \<Rightarrow> copy | Some v \<Rightarrow> put key v copy) acc keys =
   foldl (\<lambda>copy key. case map_of c' key of None \<Rightarrow> copy | Some v \<Rightarrow> put key v copy) acc keys"
  by (induction keys arbitrary: acc) simp_all

lemma pick_cong:
  "(\<And>k. k \<in> set keys \<Longrightarrow> map_of c k = map_of c' k) \<Longrightarrow> pick c keys = pick c' keys"
  unfolding pick_def by (rule pick_fold_cong)

lemma get_merge_layers_supplied:
  "k \<noteq> ''localization'' \<Longrightarrow> map_of Defaults k = None \<Longrightarrow>
   get (merge_layers E options) k = supplied E options k"
  unfolding get_merge_layers supplied_def
  by (simp add: get_def split: option.splits)

lemma Defaults_no_playlist: "map_of Defaults ''playlist'' = None"
  by (simp add: Defaults_def)

lemma playlist_resolution:
  assumes ok: "createConfig E options = Inr c"
  shows "get c ''playlist'' =
     (if \<not> truthy (supplied E options ''playlist'')
      then JArr [JObj (pick (merge_layers E options) item_fields)]
      else if isArray (get_prop (supplied E options ''playlist'') ''playlist'')
      then get_prop (supplied E options ''playlist'') ''playlist''
      else supplied E options ''playlist'')"
proof -
  from createConfig_before_playlist [OF ok] obtain c9 where
    c: "c = quality_labels (resolve_playlist c9)" and
    fr0: "\<forall>k. k \<notin> set keys_before_playlist \<longrightarrow> map_of c9 k = map_of (merge_layers E options) k"
    by blast
  have fr: "map_of c9 k = map_of (merge_layers E options) k" if "k \<notin> set keys_before_playlist" for k
    using fr0 that by blast
  have p: "get c9 ''playlist'' = supplied E options ''playlist''"
  proof -
    have "map_of c9 ''playlist'' = map_of (merge_layers E options) ''playlist''"
      by (rule fr) (simp add: keys_before_playlist_def)
    then have "get c9 ''playlist'' = get (merge_layers E options) ''playlist''"
      by (rule get_frame)
    then show ?thesis
      by (simp add: get_merge_layers_supplied Defaults_no_playlist)
  qed
  have i: "pick c9 item_fields = pick (merge_layers E options) item_fields"
  proof (rule pick_cong)
    fix k assume "k \<in> set item_fields"
    then have "k \<notin> set keys_before_playlist"
      by (auto simp: item_fields_def keys_before_playlist_def)
    then show "map_of c9 k = map_of (merge_layers E options) k" by (rule fr)
  qed
  have "get c ''playlist'' = get (resolve_playlist c9) ''playlist''"
    unfolding c by (rule get_frame) (simp add: quality_labels_frame)
  also have "\<dots> =
     (if \<not> truthy (supplied E options ''playlist'')
      then JArr [JObj (pick (merge_layers E options) item_fields)]
      else if isArray (get_prop (supplied E options ''playlist'') ''playlist'')
      then get_prop (supplied E options ''playlist'') ''playlist''
      else supplied E options ''playlist'')"
    by (simp add: resolve_playlist_def Let_def get_put p i)
  finally show ?thesis .
qed

subsection \<open>Claim C2: the playlist\<close>

text \<open>
  C2, as amended. Whenever \<open>createConfig\<close> returns a configuration: if the layers supply
  no playlist, or a falsy one, the playlist is a sequence of exactly one item, the object
  of the allow-listed fields the merged configuration has; if they supply a value with a
  member \<open>playlist\<close> that is an array, the playlist is that array; in every other case
  the playlist is the supplied value, unchanged - so a supplied empty array stays empty.
\<close>

theorem createConfig_playlist:
  assumes ok: "createConfig E options = Inr c"
  shows "get c ''playlist'' =
     (if \<not> truthy (supplied E options ''playlist'')
      then JArr [JObj (pick (merge_layers E options) item_fields)]
      else if isArray (get_prop (supplied E options ''playlist'') ''playlist'')
      then get_prop (supplied E options ''playlist'') ''playlist''
      else supplied E options ''playlist'')"
  using ok by (rule playlist_resolution)

lemma toString_480: "js_toString (JNum (Fin 480)) = Some ''480''"
  by code_simp

lemma evaluateAspectRatio_width_480:
  "evaluateAspectRatio E ar (JNum (Fin 480)) = Inr (JNum (Fin 0))"
  by (simp add: evaluateAspectRatio_def toString_480 starts_with_def del: js_toString.simps)

lemma plain_page_succeeds:
  assumes "get (merge_layers plain_page options) ''base'' = JUndefined"
    and "get (merge_layers plain_page options) ''width'' = JNum (Fin 480)"
    and "get (merge_layers plain_page options) ''height'' = JNum (Fin 270)"
  shows "\<not> isl (createConfig plain_page options)"
  by (rule createConfig_succeeds [where w = "JNum (Fin 480)" and h = "JNum (Fin 270)"
        and ar = "JNum (Fin 0)"])
     (simp_all add: assms plain_page_proj evaluateAspectRatio_width_480)

lemma plain_page_get:
  "map_of (rev kvs) k = None \<Longrightarrow> k \<noteq> ''localization'' \<Longrightarrow>
   get (merge_layers plain_page (JObj kvs)) k = get Defaults k"
  by (simp add: get_merge_layers plain_page_top_layer)

lemma plain_page_supplied:
  "supplied plain_page (JObj kvs) k =
     (case map_of (rev kvs) k of Some v \<Rightarrow> serialize_model v | None \<Rightarrow> JUndefined)"
  by (simp add: supplied_def plain_page_top_layer plain_page_proj split: option.splits)

lemma plain_page_item:
  "map_of (merge_layers plain_page (JObj kvs)) k =
     (if k = ''localization''
      then Some (JObj (extend_obj [] [JObj localization_defaults, top_localization plain_page (JObj kvs)]))
      else (case map_of (rev kvs) k of
              Some v \<Rightarrow> Some (serialize_model v)
            | None \<Rightarrow> map_of Defaults k))"
  by (simp add: map_of_merge_layers plain_page_top_layer plain_page_proj split: option.splits)

text \<open>
  The theorem at the empty options, and at options that carry a flattened item.
\<close>

theorem createConfig_playlist_witness:
  "get (projr (createConfig plain_page (JObj []))) ''playlist'' = JArr [JObj []] \<and>
   get (projr (createConfig plain_page
       (JObj [(''file'', JStr ''a.mp4''), (''title'', JStr ''A'')]))) ''playlist'' =
     JArr [JObj [(''title'', JStr ''A''), (''file'', JStr ''a.mp4'')]]"
proof -
  let ?o = "JObj [(''file'', JStr ''a.mp4''), (''title'', JStr ''A'')]"
  have ok0: "\<not> isl (createConfig plain_page (JObj []))"
    by (rule plain_page_succeeds) (simp_all add: plain_page_get Defaults_get)
  have ok1: "\<not> isl (createConfig plain_page ?o)"
    by (rule plain_page_succeeds) (simp_all add: plain_page_get Defaults_get)
  have s: "serialize_model (JStr ''a.mp4'') = JStr ''a.mp4''" "serialize_model (JStr ''A'') = JStr ''A''"
    by code_simp+
  have i0: "pick (merge_layers plain_page (JObj [])) item_fields = []"
    by (simp add: pick_def item_fields_def plain_page_item Defaults_def)
  have i1: "pick (merge_layers plain_page ?o) item_fields =
              [(''title'', JStr ''A''), (''file'', JStr ''a.mp4'')]"
    by (simp add: pick_def item_fields_def plain_page_item Defaults_def s put_def
        del: serialize_model.simps)
  show ?thesis
    using createConfig_playlist [OF not_isl_projr [OF ok0]]
      createConfig_playlist [OF not_isl_projr [OF ok1]]
    by (simp add: plain_page_supplied i0 i1)
qed

text \<open>
  C2 as stated fails when the playlist field is supplied but empty: the empty array is
  truthy and has no member \<open>playlist\<close>, so \<open>createConfig\<close> returns it as the playlist.
\<close>

theorem empty_playlist_counterexample:
  "\<not> isl (createConfig plain_page (JObj [(''playlist'', JArr [])])) \<and>
   get (projr (createConfig plain_page (JObj [(''playlist'', JArr [])]))) ''playlist'' = JArr []"
proof -
  let ?o = "JObj [(''playlist'', JArr [])]"
  have ok: "\<not> isl (createConfig plain_page ?o)"
    by (rule plain_page_succeeds) (simp_all add: plain_page_get Defaults_get)
  show ?thesis
    using ok playlist_resolution [OF not_isl_projr [OF ok]]
    by (simp add: plain_page_supplied)
qed

lemma createConfig_before_rates:
  assumes ok: "createConfig E options = Inr c"
  shows "\<exists>c5. c = quality_labels (resolve_playlist (drop_unset_aspect
                   (default_rate (rate_controls c5)))) \<and>
    (\<forall>k. k \<notin> set keys_before_rates \<longrightarrow> map_of c5 k = map_of (merge_layers E options) k)"
proof -
  from ok obtain c1 c2 c3 c4 where
    1: "resolve_base E (merge_layers E options) = Inr c1" and
    2: "normalize_sizes c1 = Inr c2" and
    3: "flash_assets E c2 = Inr c3" and
    4: "aspect_ratio E c3 = Inr c4" and
    5: "c = quality_labels (resolve_playlist (drop_unset_aspect
           (default_rate (rate_controls (resolve_skin c4)))))"
    by (rule createConfig_steps)
  have "map_of (resolve_skin c4) k = map_of (merge_layers E options) k"
    if k: "k \<notin> set keys_before_rates" for k
  proof -
    have "map_of (resolve_skin c4) k = map_of c4 k"
      using k by (simp add: keys_before_rates_def resolve_skin_frame)
    also have "\<dots> = map_of c3 k"
      using k by (intro aspect_ratio_frame [OF 4]) (simp add: keys_before_rates_def)
    also have "\<dots> = map_of c2 k"
      using k by (intro flash_assets_frame [OF 3]) (simp_all add: keys_before_rates_def)
    also have "\<dots> = map_of c1 k"
      using k by (intro normalize_sizes_frame [OF 2]) (simp_all add: keys_before_rates_def)
    also have "\<dots> = map_of (merge_layers E options) k"
      using k by (intro resolve_base_frame [OF 1]) (simp add: keys_before_rates_def)
    finally show ?thesis .
  qed
  with 5 show ?thesis by blast
qed

lemma validRatesFilter_valid_rate: "validRatesFilter v = valid_rate v"
proof (cases v)
  case (JNum n)
  then show ?thesis by (cases n) (simp_all add: validRatesFilter_def valid_rate_def)
qed (simp_all add: validRatesFilter_def valid_rate_def)

lemma filter_valid: "filter validRatesFilter xs = filter valid_rate xs"
  by (simp add: validRatesFilter_valid_rate cong: filter_cong)

lemma truthy_default_rates: "truthy default_rates"
  by (simp add: default_rates_def)

lemma rate_controls_controls:
  "get (rate_controls c) ''playbackRateControls'' =
     (case enabled_rates (get c ''playbackRateControls'') of
        Some l \<Rightarrow> l
      | None \<Rightarrow> if truthy (get c ''playbackRateControls'') then JBool False
                else get c ''playbackRateControls'')"
proof (cases "get c ''playbackRateControls''")
  case (JBool b)
  then show ?thesis
    by (simp add: rate_controls_def enabled_rates_def get_put truthy_default_rates Let_def)
next
  case (JArr xs)
  then show ?thesis
    by (simp add: rate_controls_def enabled_rates_def get_put filter_valid Let_def)
qed (simp_all add: rate_controls_def enabled_rates_def get_put)

lemma rate_controls_rates:
  "get (rate_controls c) ''playbackRates'' =
     (case enabled_rates (get c ''playbackRateControls'') of
        Some l \<Rightarrow> l
      | None \<Rightarrow> get c ''playbackRates'')"
proof (cases "get c ''playbackRateControls''")
  case (JBool b)
  then show ?thesis
    by (simp add: rate_controls_def enabled_rates_def get_put truthy_default_rates Let_def)
next
  case (JArr xs)
  then show ?thesis
    by (simp add: rate_controls_def enabled_rates_def get_put filter_valid Let_def)
qed (simp_all add: rate_controls_def enabled_rates_def get_put)

lemmas rate_controls_value = rate_controls_controls rate_controls_rates


lemma default_rate_value:
  "get (default_rate c) ''playbackRateControls'' = get c ''playbackRateControls''"
  "get (default_rate c) ''playbackRates'' =
     (if truthy (get c ''playbackRates'') then get c ''playbackRates'' else JBool False)"
  "map_of (default_rate c) ''playbackRates'' \<noteq> None"
  by (simp_all add: default_rate_def Let_def get_put map_of_put)

lemma enabled_rates_truthy: "enabled_rates r = Some l \<Longrightarrow> truthy l"
  by (auto simp: enabled_rates_def truthy_default_rates split: jsval.splits if_splits)

lemma rates_resolution:
  assumes ok: "createConfig E options = Inr c"
  shows "get c ''playbackRateControls'' =
     (case enabled_rates (get (merge_layers E options) ''playbackRateControls'') of
        Some l \<Rightarrow> l
      | None \<Rightarrow> if truthy (get (merge_layers E options) ''playbackRateControls'') then JBool False
                else get (merge_layers E options) ''playbackRateControls'') \<and>
    get c ''playbackRates'' =
     (case enabled_rates (get (merge_layers E options) ''playbackRateControls'') of
        Some l \<Rightarrow> l
      | None \<Rightarrow> if truthy (supplied E options ''playbackRates'')
                then supplied E options ''playbackRates'' else JBool False) \<and>
    map_of c ''playbackRates'' \<noteq> None"
proof -
  let ?m = "merge_layers E options"
  from createConfig_before_rates [OF ok] obtain c5 where
    c: "c = quality_labels (resolve_playlist (drop_unset_aspect
                   (default_rate (rate_controls c5))))" and
    fr0: "\<forall>k. k \<notin> set keys_before_rates \<longrightarrow> map_of c5 k = map_of ?m k"
    by blast
  have r: "get c5 ''playbackRateControls'' = get ?m ''playbackRateControls''"
    by (rule get_frame) (simp add: fr0 keys_before_rates_def)
  have "get c5 ''playbackRates'' = get ?m ''playbackRates''"
    by (rule get_frame) (simp add: fr0 keys_before_rates_def)
  then have p: "get c5 ''playbackRates'' = supplied E options ''playbackRates''"
    by (simp add: get_merge_layers_supplied Defaults_def)
  let ?c7 = "default_rate (rate_controls c5)"
  have tail: "map_of c k = map_of ?c7 k" if "k = ''playbackRateControls'' \<or> k = ''playbackRates''" for k
    unfolding c using that
    by (auto simp: quality_labels_frame resolve_playlist_frame drop_unset_aspect_frame)
  have 1: "get c ''playbackRateControls'' = get ?c7 ''playbackRateControls''"
    by (rule get_frame) (simp add: tail)
  have 2: "get c ''playbackRates'' = get ?c7 ''playbackRates''"
    by (rule get_frame) (simp add: tail)
  have 3: "map_of c ''playbackRates'' \<noteq> None"
    by (simp add: tail default_rate_value)
  show ?thesis
  proof (cases "enabled_rates (get ?m ''playbackRateControls'')")
    case None
    then show ?thesis
      using 3 by (simp add: 1 2 default_rate_value rate_controls_value r p)
  next
    case (Some l)
    then show ?thesis
      using 3 enabled_rates_truthy [OF Some]
      by (simp add: 1 2 default_rate_value rate_controls_value r p)
  qed
qed

lemma plain_page_get_supplied:
  "map_of (rev kvs) k = Some v \<Longrightarrow> k \<noteq> ''localization'' \<Longrightarrow>
   get (merge_layers plain_page (JObj kvs)) k = serialize_model v"
  by (simp add: get_merge_layers plain_page_top_layer plain_page_proj)

lemma get_Some: "map_of c k \<noteq> None \<Longrightarrow> map_of c k = Some (get c k)"
  by (auto simp: get_def)

subsection \<open>Claim C4: the playback rate controls\<close>

text \<open>
  C4, as amended. Whenever \<open>createConfig\<close> returns a configuration, with \<open>r\<close> the merged
  value of \<open>playbackRateControls\<close>: if \<open>r\<close> is \<open>true\<close> the field becomes the fixed list
  [0.5, 1, 1.25, 1.5, 2]; if \<open>r\<close> is a list with entries that are numbers in [0.25, 4.0],
  it becomes the list of those entries; in both cases the same list is mirrored into
  \<open>playbackRates\<close>. Otherwise the feature is disabled: a truthy \<open>r\<close> (a list without
  valid entries, or any other form) becomes \<open>false\<close>, a falsy \<open>r\<close> is left as it is, and
  the field \<open>playbackRates\<close> is present all the same: it holds \<open>false\<close>, or the truthy
  \<open>playbackRates\<close> value the layers supplied.
\<close>

theorem createConfig_playbackRateControls:
  assumes ok: "createConfig E options = Inr c"
  shows "get c ''playbackRateControls'' =
     (case enabled_rates (get (merge_layers E options) ''playbackRateControls'') of
        Some l \<Rightarrow> l
      | None \<Rightarrow> if truthy (get (merge_layers E options) ''playbackRateControls'') then JBool False
                else get (merge_layers E options) ''playbackRateControls'') \<and>
    get c ''playbackRates'' =
     (case enabled_rates (get (merge_layers E options) ''playbackRateControls'') of
        Some l \<Rightarrow> l
      | None \<Rightarrow> if truthy (supplied E options ''playbackRates'')
                then supplied E options ''playbackRates'' else JBool False) \<and>
    map_of c ''playbackRates'' \<noteq> None"
  using ok by (rule rates_resolution)

text \<open>
  The theorem at \<open>{playbackRateControls: [0.1, 1, 10, 2]}\<close> (0.1 is the double nearest to
  one tenth) and at \<open>{playbackRateControls: true}\<close>.
\<close>

theorem createConfig_playbackRateControls_witness:
  "get (projr (createConfig plain_page (JObj [(''playbackRateControls'',
       JArr [JNum (Fin (3602879701896397 / 36028797018963968)), JNum (Fin 1), JNum (Fin 10), JNum (Fin 2)])])))
     ''playbackRateControls'' = JArr [JNum (Fin 1), JNum (Fin 2)] \<and>
   get (projr (createConfig plain_page (JObj [(''playbackRateControls'',
       JArr [JNum (Fin (3602879701896397 / 36028797018963968)), JNum (Fin 1), JNum (Fin 10), JNum (Fin 2)])])))
     ''playbackRates'' = JArr [JNum (Fin 1), JNum (Fin 2)] \<and>
   get (projr (createConfig plain_page (JObj [(''playbackRateControls'', JBool True)])))
     ''playbackRates'' =
     JArr [JNum (Fin (1 / 2)), JNum (Fin 1), JNum (Fin (5 / 4)), JNum (Fin (3 / 2)), JNum (Fin 2)]"
proof -
  let ?o = "JObj [(''playbackRateControls'',
       JArr [JNum (Fin (3602879701896397 / 36028797018963968)), JNum (Fin 1), JNum (Fin 10), JNum (Fin 2)])]"
  let ?t = "JObj [(''playbackRateControls'', JBool True)]"
  have ok: "\<not> isl (createConfig plain_page ?o)"
    by (rule plain_page_succeeds) (simp_all add: plain_page_get Defaults_get)
  have okt: "\<not> isl (createConfig plain_page ?t)"
    by (rule plain_page_succeeds) (simp_all add: plain_page_get Defaults_get)
  have r: "get (merge_layers plain_page ?o) ''playbackRateControls'' =
      JArr [JNum (Fin (3602879701896397 / 36028797018963968)), JNum (Fin 1), JNum (Fin 10), JNum (Fin 2)]"
    by (simp add: plain_page_get_supplied)
  have rt: "get (merge_layers plain_page ?t) ''playbackRateControls'' = JBool True"
    by (simp add: plain_page_get_supplied)
  show ?thesis
    using createConfig_playbackRateControls [OF not_isl_projr [OF ok]]
      createConfig_playbackRateControls [OF not_isl_projr [OF okt]]
    by (simp add: r rt enabled_rates_def valid_rate_def default_rates_def)
qed

text \<open>
  C4 as stated fails where the feature ends up disabled: at
  \<open>{playbackRateControls: [0.1, 10]}\<close> no entry is valid, \<open>playbackRateControls\<close> is
  \<open>false\<close>, and the result does have a field \<open>playbackRates\<close>, holding \<open>false\<close>
  (line 1008 assigns it).
\<close>

theorem disabled_rates_counterexample:
  "\<not> isl (createConfig plain_page (JObj [(''playbackRateControls'',
       JArr [JNum (Fin (3602879701896397 / 36028797018963968)), JNum (Fin 10)])])) \<and>
   map_of (projr (createConfig plain_page (JObj [(''playbackRateControls'',
       JArr [JNum (Fin (3602879701896397 / 36028797018963968)), JNum (Fin 10)])])))
     ''playbackRateControls'' = Some (JBool False) \<and>
   map_of (projr (createConfig plain_page (JObj [(''playbackRateControls'',
       JArr [JNum (Fin (3602879701896397 / 36028797018963968)), JNum (Fin 10)])])))
     ''playbackRates'' = Some (JBool False)"
proof -
  let ?o = "JObj [(''playbackRateControls'',
       JArr [JNum (Fin (3602879701896397 / 36028797018963968)), JNum (Fin 10)])]"
  let ?c = "projr (createConfig plain_page ?o)"
  have ok: "\<not> isl (createConfig plain_page ?o)"
    by (rule plain_page_succeeds) (simp_all add: plain_page_get Defaults_get)
  have r: "get (merge_layers plain_page ?o) ''playbackRateControls'' =
      JArr [JNum (Fin (3602879701896397 / 36028797018963968)), JNum (Fin 10)]"
    by (simp add: plain_page_get_supplied)
  have s: "supplied plain_page ?o ''playbackRates'' = JUndefined"
    by (simp add: plain_page_supplied)
  from rates_resolution [OF not_isl_projr [OF ok]]
  have g: "get ?c ''playbackRateControls'' = JBool False" "get ?c ''playbackRates'' = JBool False"
    "map_of ?c ''playbackRates'' \<noteq> None"
    by (simp_all add: r s enabled_rates_def valid_rate_def)
  have "map_of ?c ''playbackRateControls'' \<noteq> None"
    using g(1) by (auto simp: get_def split: option.splits)
  then show ?thesis
    using ok g get_Some [of ?c "''playbackRates''"] get_Some [of ?c "''playbackRateControls''"]
    by simp
qed

lemma localization_entry:
  "get_prop (JObj (extend_obj [] [JObj localization_defaults, t])) s =
     (case layer t s of Some v \<Rightarrow> v | None \<Rightarrow> get localization_defaults s)"
proof -
  have "map_of (extend_obj [] [JObj localization_defaults, t]) s =
          (case layer t s of Some v \<Rightarrow> Some v | None \<Rightarrow> map_of localization_defaults s)"
    unfolding extend_obj_two layer_obj [OF localization_defaults_distinct] ..
  then show ?thesis
    unfolding get_prop.simps get_def by (cases "layer t s") simp_all
qed

lemma merge_precedence:
  assumes ok: "createConfig E options = Inr c"
  shows "(k \<notin> set derived_keys \<and> k \<noteq> ''localization'' \<longrightarrow>
            get c k = (case top_layer_value E options k of
                         Some v \<Rightarrow> serialize E v
                       | None \<Rightarrow> get Defaults k)) \<and>
         get_prop (get c ''localization'') s =
           (case layer (top_localization E options) s of
              Some v \<Rightarrow> v
            | None \<Rightarrow> get localization_defaults s)"
proof -
  have 1: "get c k = get (merge_layers E options) k" if "k \<notin> set derived_keys" for k
    by (rule get_frame) (rule createConfig_frame [OF ok that])
  have "''localization'' \<notin> set derived_keys"
    by (simp add: derived_keys_def)
  then have 2: "get c ''localization'' =
      JObj (extend_obj [] [JObj localization_defaults, top_localization E options])"
    by (simp add: 1 get_merge_layers)
  have 3: "get_prop (get c ''localization'') s =
      (case layer (top_localization E options) s of
         Some v \<Rightarrow> v
       | None \<Rightarrow> get localization_defaults s)"
    unfolding 2 by (rule localization_entry)
  have 4: "get c k = (case top_layer_value E options k of
                        Some v \<Rightarrow> serialize E v
                      | None \<Rightarrow> get Defaults k)"
    if "k \<notin> set derived_keys" "k \<noteq> ''localization''"
    using that by (simp add: 1 get_merge_layers)
  show ?thesis
    using 3 4 by blast
qed

lemma layered_page_proj:
  "jw_defaults layered_page = JObj [(''volume'', JNum (Fin 50)), (''mute'', JBool True),
                             (''localization'', JObj [(''play'', JStr ''Jouer'')])]"
  "persisted layered_page = JObj [(''volume'', JStr ''20'')]"
  "serialize layered_page = serialize_model"
  "utils_exists layered_page = exists_model"
  "script_path layered_page = ''https://cdn.example/lib/''"
  "load_from layered_page = ''https://cdn.example/lib/''"
  "protocol layered_page = ''https:''"
  by (simp_all add: layered_page_def plain_page_def)

lemma serialize_20: "serialize_model (JStr ''20'') = JNum (Fin 20)"
  by code_simp

lemma serialize_False: "serialize_model (JBool False) = JBool False"
  by code_simp

lemma layered_example_ok:
  "\<not> isl (createConfig layered_page
      (JObj [(''mute'', JBool False), (''localization'', JObj [(''pause'', JStr ''Arret'')])]))"
  by (rule createConfig_succeeds [where w = "JNum (Fin 480)" and h = "JNum (Fin 270)"
        and ar = "JNum (Fin 0)"])
     (simp_all add: get_merge_layers top_layer_value_def layer_def layered_page_proj
        Defaults_get evaluateAspectRatio_width_480)

lemma layered_example_values:
  "top_layer_value layered_page
      (JObj [(''mute'', JBool False), (''localization'', JObj [(''pause'', JStr ''Arret'')])]) ''volume''
     = Some (JStr ''20'')"
  "top_layer_value layered_page
      (JObj [(''mute'', JBool False), (''localization'', JObj [(''pause'', JStr ''Arret'')])]) ''mute''
     = Some (JBool False)"
  "top_layer_value layered_page
      (JObj [(''mute'', JBool False), (''localization'', JObj [(''pause'', JStr ''Arret'')])]) ''autostart''
     = None"
  "top_localization layered_page
      (JObj [(''mute'', JBool False), (''localization'', JObj [(''pause'', JStr ''Arret'')])])
     = JObj [(''pause'', JStr ''Arret'')]"
  by (simp_all add: top_localization_def top_layer_value_def layer_def layered_page_proj)

subsection \<open>Claim C5: the precedence of the layers\<close>

text \<open>
  C5, as amended. Whenever \<open>createConfig\<close> returns a configuration: every key other than
  \<open>localization\<close> that no later line assigns holds the deserialized value of the
  highest layer that has the key (explicit options, then persisted values, then the
  process-wide defaults), and the built-in default when no layer has it. The
  \<open>localization\<close> key is merged from two tables only: each entry holds the value of the
  one \<open>localization\<close> table that wins that same precedence as a whole, and the built-in
  string when that table omits the entry; the tables of the layers below the winner are
  not consulted.
\<close>

theorem createConfig_merge_precedence:
  assumes ok: "createConfig E options = Inr c"
  shows "(k \<notin> set derived_keys \<and> k \<noteq> ''localization'' \<longrightarrow>
            get c k = (case top_layer_value E options k of
                         Some v \<Rightarrow> serialize E v
                       | None \<Rightarrow> get Defaults k)) \<and>
         get_prop (get c ''localization'') s =
           (case layer (top_localization E options) s of
              Some v \<Rightarrow> v
            | None \<Rightarrow> get localization_defaults s)"
  using ok by (rule merge_precedence)

text \<open>
  The theorem on the page with injected defaults and a persisted volume, at the options
  \<open>{mute: false, localization: {pause: "Arret"}}\<close>: the persisted volume wins over the
  injected one, the explicit mute flag over the injected one, and the pause string
  comes from the explicit table.
\<close>

theorem createConfig_merge_precedence_witness:
  "get (projr (createConfig layered_page
      (JObj [(''mute'', JBool False), (''localization'', JObj [(''pause'', JStr ''Arret'')])])))
     ''volume'' = JNum (Fin 20) \<and>
   get (projr (createConfig layered_page
      (JObj [(''mute'', JBool False), (''localization'', JObj [(''pause'', JStr ''Arret'')])])))
     ''mute'' = JBool False \<and>
   get (projr (createConfig layered_page
      (JObj [(''mute'', JBool False), (''localization'', JObj [(''pause'', JStr ''Arret'')])])))
     ''autostart'' = JBool False \<and>
   get_prop (get (projr (createConfig layered_page
      (JObj [(''mute'', JBool False), (''localization'', JObj [(''pause'', JStr ''Arret'')])])))
     ''localization'') ''pause'' = JStr ''Arret''"
proof -
  let ?o = "JObj [(''mute'', JBool False), (''localization'', JObj [(''pause'', JStr ''Arret'')])]"
  note ok = not_isl_projr [OF layered_example_ok]
  have a: "get Defaults ''autostart'' = JBool False"
    by (simp add: get_def Defaults_def)
  show ?thesis
    using createConfig_merge_precedence [OF ok, of "''volume''" "''pause''"]
      createConfig_merge_precedence [OF ok, of "''mute''" "''pause''"]
      createConfig_merge_precedence [OF ok, of "''autostart''" "''pause''"]
    by (simp add: derived_keys_def layered_example_values layered_page_proj serialize_20 serialize_False a
        layer_def del: serialize_model.simps)
qed

text \<open>
  C5 as stated fails for \<open>localization\<close>: on the same page and options, the injected
  defaults translate \<open>play\<close> as "Jouer" and the explicit table omits \<open>play\<close>, yet the
  result has the built-in "Play": the explicit table replaced the injected one as a
  whole before the merge with the built-in strings.
\<close>

theorem localization_fallback_counterexample:
  "layer (jw_defaults layered_page) ''localization'' = Some (JObj [(''play'', JStr ''Jouer'')]) \<and>
   \<not> isl (createConfig layered_page
      (JObj [(''mute'', JBool False), (''localization'', JObj [(''pause'', JStr ''Arret'')])])) \<and>
   get_prop (get (projr (createConfig layered_page
      (JObj [(''mute'', JBool False), (''localization'', JObj [(''pause'', JStr ''Arret'')])])))
     ''localization'') ''play'' = JStr ''Play''"
proof -
  have p: "get localization_defaults ''play'' = JStr ''Play''"
    by (simp add: get_def localization_defaults_def)
  show ?thesis
    using merge_precedence [OF not_isl_projr [OF layered_example_ok], of "''volume''" "''play''"]
      layered_example_ok
    by (simp add: layered_example_values layered_page_proj layer_def p)
qed

end
